theory Spec2Isabelle
  imports Complex_Main "HOL-Library.Multiset" "HOL-Library.List_Lexorder" "HOL-Library.Char_ord"
    "HOL-Library.Product_Lexorder"
begin

section \<open>Tables as pandas holds them\<close>

text \<open>
  The two dashboards keep their data in pandas frames. A frame is modelled column by
  column, as pandas stores it: an index length and an ordered list of labelled series.
  A cell is a text, a number, the missing-numeric marker, a date (an instant, as an
  integer) or the missing-date marker. Numbers are rationals: the scores are small
  multiples of one half, which binary floating point holds exactly; the integer and
  floating dtypes are not told apart, and a series carries no dtype of its own. Texts are
  byte strings, and case folding and trimming are the ASCII ones.
\<close>

datatype cell = Str string | Num rat | NaN | Timestamp int | NaT

datatype error = AttributeError | KeyError | TypeError

type_synonym series = "cell list"

record frame =
  nrows :: nat
  columns :: "(string \<times> series) list"

definition labels :: "frame \<Rightarrow> string list" where
  "labels f = map fst (columns f)"

text \<open>\<^verbatim>\<open>df[col]\<close> for reading: the series under a label, \<open>None\<close> where pandas raises KeyError.\<close>

definition getitem :: "string \<Rightarrow> frame \<Rightarrow> series option" where
  "getitem l f = map_of (columns f) l"

text \<open>\<^verbatim>\<open>df[col] = s\<close>: the series replaces the one under the label, or is appended.\<close>

definition setitem :: "string \<Rightarrow> series \<Rightarrow> frame \<Rightarrow> frame" where
  "setitem l s f =
     (if l \<in> set (labels f)
      then f\<lparr>columns := map (\<lambda>(k, c). if k = l then (k, s) else (k, c)) (columns f)\<rparr>
      else f\<lparr>columns := columns f @ [(l, s)]\<rparr>)"

text \<open>\<^verbatim>\<open>str.strip()\<close>: white space is taken off both ends.\<close>

definition is_space :: "char \<Rightarrow> bool" where
  "is_space c = (c \<in> set [CHR 0x09, CHR 0x0A, CHR 0x0B, CHR 0x0C, CHR 0x0D,
                           CHR 0x1C, CHR 0x1D, CHR 0x1E, CHR 0x1F, CHR 0x20])"

definition strip :: "string \<Rightarrow> string" where
  "strip s = rev (dropWhile is_space (rev (dropWhile is_space s)))"

text \<open>
  The frames pandas reads have one series per label and every series as long as the
  index. Trimming the labels can make two of them collide; what pandas does with a
  repeated label is outside this model, so the frames considered keep their labels
  distinct after trimming.
\<close>

definition wf_frame :: "frame \<Rightarrow> bool" where
  "wf_frame f = ((\<forall>c \<in> set (columns f). length (snd c) = nrows f)
                 \<and> distinct (map strip (labels f)))"

subsection \<open>Text matching\<close>

definition lower_char :: "char \<Rightarrow> char" where
  "lower_char c = (let n = (of_char c :: nat) in if 65 \<le> n \<and> n \<le> 90 then char_of (n + 32) else c)"

definition lower :: "string \<Rightarrow> string" where
  "lower s = map lower_char s"

fun is_prefix :: "'a list \<Rightarrow> 'a list \<Rightarrow> bool" where
  "is_prefix [] ys = True"
| "is_prefix (x # xs) [] = False"
| "is_prefix (x # xs) (y # ys) = (x = y \<and> is_prefix xs ys)"

text \<open>\<^verbatim>\<open>re.search\<close> for a pattern that is one literal: the literal occurs somewhere.\<close>

fun re_search :: "string \<Rightarrow> string \<Rightarrow> bool" where
  "re_search p [] = is_prefix p []"
| "re_search p (c # s) = (is_prefix p (c # s) \<or> re_search p s)"

text \<open>
  \<^verbatim>\<open>Series.str.contains('A|B|C', case=False, na=False)\<close> on one cell: an alternation of
  literals, searched ignoring case; a cell that is not a text gives the \<open>na\<close> value.
\<close>

definition contains_cell :: "string list \<Rightarrow> cell \<Rightarrow> bool" where
  "contains_cell toks v =
     (case v of Str s \<Rightarrow> list_ex (\<lambda>t. re_search (lower t) (lower s)) toks | _ \<Rightarrow> False)"

definition is_Str :: "cell \<Rightarrow> bool" where
  "is_Str v = (case v of Str s \<Rightarrow> True | _ \<Rightarrow> False)"

text \<open>
  The \<^verbatim>\<open>.str\<close> accessor checks the values first: a series with rows and no text
  among them (all numbers, dates or missing) raises AttributeError. A series without
  rows passes, being a series of objects in the frames that \<^verbatim>\<open>read_csv\<close> returns.
\<close>

definition str_contains :: "string list \<Rightarrow> series \<Rightarrow> error + bool list" where
  "str_contains toks s =
     (if s = [] \<or> list_ex is_Str s then Inr (map (contains_cell toks) s)
      else Inl AttributeError)"

definition bind :: "error + 'a \<Rightarrow> ('a \<Rightarrow> error + 'b) \<Rightarrow> error + 'b" where
  "bind m k = (case m of Inl e \<Rightarrow> Inl e | Inr x \<Rightarrow> k x)"

definition lookup :: "string \<Rightarrow> frame \<Rightarrow> error + series" where
  "lookup l f = (case getitem l f of None \<Rightarrow> Inl KeyError | Some s \<Rightarrow> Inr s)"

section \<open>Cleaning the LASS and LEP tables (app.py)\<close>

definition fill_cell :: "cell \<Rightarrow> cell \<Rightarrow> cell" where
  "fill_cell d v = (case v of NaN \<Rightarrow> d | NaT \<Rightarrow> d | _ \<Rightarrow> v)"

definition fillna :: "cell \<Rightarrow> frame \<Rightarrow> frame" where
  "fillna d f = f\<lparr>columns := map (\<lambda>(l, c). (l, map (fill_cell d) c)) (columns f)\<rparr>"

definition strip_columns :: "frame \<Rightarrow> frame" where
  "strip_columns f = f\<lparr>columns := map (\<lambda>(l, c). (strip l, c)) (columns f)\<rparr>"

definition service_columns :: "string list" where
  "service_columns =
     [''Interaction with Security Guards'',
      ''Interaction with Reception Staff'',
      ''Interaction with Frontline Staff'',
      ''Does Facility have signs posted notifying clients '' @ [CHR 0x0A]
         @ ''to the right of interpretation services?'',
      ''Did the Secret Shopper receive the informat'' @ [CHR 0x0A]
         @ ''ion or service asked for?'']"

definition positive :: "string list" where
  "positive = [''Yes'', ''Good'', ''Excellent'']"

definition negative :: "string list" where
  "negative = [''No'', ''Poor'', ''Bad'']"

text \<open>Adding to a cell of the score column, which holds numbers only.\<close>

definition add_cell :: "rat \<Rightarrow> cell \<Rightarrow> cell" where
  "add_cell d v = (case v of Num x \<Rightarrow> Num (x + d) | _ \<Rightarrow> v)"

text \<open>
  \<^verbatim>\<open>df.loc[mask, 'rating_score'] += d\<close>: the rows of the score column where the mask is
  true get \<open>d\<close> added. The column starts as integers and takes halves: pandas 2 widens it
  to floating point.
\<close>

definition loc_iadd :: "bool list \<Rightarrow> rat \<Rightarrow> frame \<Rightarrow> error + frame" where
  "loc_iadd msk d f =
     bind (lookup ''rating_score'' f) (\<lambda>r.
       Inr (setitem ''rating_score'' (map2 (\<lambda>m v. if m then add_cell d v else v) msk r) f))"

text \<open>The body of the scoring loop for one service column.\<close>

definition score_column :: "string \<Rightarrow> frame \<Rightarrow> error + frame" where
  "score_column col f =
     (if col \<in> set (labels f) then
        bind (lookup col f) (\<lambda>s.
        bind (str_contains positive s) (\<lambda>mp.
        bind (loc_iadd mp (1 / 2) f) (\<lambda>f1.
        bind (lookup col f1) (\<lambda>s1.
        bind (str_contains negative s1) (\<lambda>mn.
        loc_iadd mn (- (1 / 2)) f1)))))
      else Inr f)"

fun score_loop :: "string list \<Rightarrow> frame \<Rightarrow> error + frame" where
  "score_loop [] f = Inr f"
| "score_loop (col # cols) f = bind (score_column col f) (score_loop cols)"

text \<open>\<^verbatim>\<open>Series.clip(lo, hi)\<close> on one cell: first raised to \<open>lo\<close>, then lowered to \<open>hi\<close>.\<close>

definition clip_cell :: "rat \<Rightarrow> rat \<Rightarrow> cell \<Rightarrow> cell" where
  "clip_cell lo hi v = (case v of Num x \<Rightarrow> Num (min hi (max lo x)) | _ \<Rightarrow> v)"

text \<open>
  \<^verbatim>\<open>clean_lass_data\<close> with the list of service columns as an argument: the copy, the
  trimmed labels, the filled cells, the score column set to 3, the loop and the clip.
  The function of the program is the instance for its own list of five columns.
\<close>

definition clean_lass :: "string list \<Rightarrow> frame option \<Rightarrow> error + frame option" where
  "clean_lass cols df =
     (case df of
        None \<Rightarrow> Inr None
      | Some f \<Rightarrow>
          (let f1 = strip_columns f;
               f2 = fillna (Str ''Unknown'') f1;
               f3 = setitem ''rating_score'' (replicate (nrows f2) (Num 3)) f2
           in bind (score_loop cols f3) (\<lambda>f4.
              bind (lookup ''rating_score'' f4) (\<lambda>r.
              Inr (Some (setitem ''rating_score'' (map (clip_cell 1 5) r) f4))))))"

definition clean_lass_data :: "frame option \<Rightarrow> error + frame option" where
  "clean_lass_data df = clean_lass service_columns df"

text \<open>
  \<^verbatim>\<open>pd.to_numeric(s, errors='coerce')\<close>: a text becomes the number it reads as, or the
  missing-numeric marker; how pandas reads a number from a text is the argument \<open>parse\<close>.
  A date in a series of mixed cells is not a number.
\<close>

definition to_numeric :: "(string \<Rightarrow> rat option) \<Rightarrow> series \<Rightarrow> series" where
  "to_numeric parse s =
     map (\<lambda>v. case v of
            Str t \<Rightarrow> (case parse t of Some x \<Rightarrow> Num x | None \<Rightarrow> NaN)
          | Num x \<Rightarrow> Num x
          | _ \<Rightarrow> NaN) s"

definition clean_lep_data :: "(string \<Rightarrow> rat option) \<Rightarrow> frame option \<Rightarrow> error + frame option" where
  "clean_lep_data parse df =
     (case df of
        None \<Rightarrow> Inr None
      | Some f \<Rightarrow>
          (let f1 = strip_columns f;
               f2 = fillna (Str ''Unknown'') f1
           in if ''LEP Population (Estimate)'' \<in> set (labels f2)
              then bind (lookup ''LEP Population (Estimate)'' f2) (\<lambda>s.
                     Inr (Some (setitem ''LEP Population (Estimate)'' (to_numeric parse s) f2)))
              else Inr (Some f2)))"

section \<open>The sidebar filter (app.py)\<close>

text \<open>
  \<^verbatim>\<open>Series.isin(values)\<close> gives one truth value per row, and \<^verbatim>\<open>df[mask]\<close> keeps the rows
  where the mask is true, in every series, in their order.
\<close>

definition isin :: "cell list \<Rightarrow> series \<Rightarrow> bool list" where
  "isin values s = map (\<lambda>v. v \<in> set values) s"

definition select :: "bool list \<Rightarrow> 'a list \<Rightarrow> 'a list" where
  "select msk xs = map fst (filter snd (zip xs msk))"

definition take_rows :: "bool list \<Rightarrow> frame \<Rightarrow> frame" where
  "take_rows msk f =
     \<lparr>nrows = length (filter id msk),
      columns = map (\<lambda>(l, c). (l, select msk c)) (columns f)\<rparr>"

text \<open>
  One of the three steps \<^verbatim>\<open>if selected: filtered = filtered[filtered[col].isin(selected)]\<close>.
  An empty list is false in Python, so the step is skipped for it. Reading a column the
  frame does not have raises KeyError.
\<close>

definition filter_isin :: "string \<Rightarrow> cell list \<Rightarrow> frame \<Rightarrow> error + frame" where
  "filter_isin col selected f =
     (if selected \<noteq> [] then bind (lookup col f) (\<lambda>s. Inr (take_rows (isin selected s) f))
      else Inr f)"

text \<open>
  The block that computes \<^verbatim>\<open>filtered_lass\<close> from the cleaned table and the three selections
  (the copy it starts from is the same value); without a table the result is the empty
  frame. The selections are what the sidebar's widgets return: values picked among those
  of the column, and the empty list when the table lacks the column.
\<close>

definition filtered_lass :: "frame option \<Rightarrow> cell list \<Rightarrow> cell list \<Rightarrow> cell list \<Rightarrow> error + frame" where
  "filtered_lass lass_df selected_agencies selected_boroughs selected_languages =
     (case lass_df of
        Some f \<Rightarrow>
          bind (filter_isin ''Agency'' selected_agencies f) (\<lambda>f1.
          bind (filter_isin ''Borough'' selected_boroughs f1) (\<lambda>f2.
          filter_isin ''Secret Shopper Language'' selected_languages f2))
      | None \<Rightarrow> Inr \<lparr>nrows = 0, columns = []\<rparr>)"

section \<open>Grouped sums and means\<close>

text \<open>
  \<^verbatim>\<open>df.groupby(key)[metric]\<close> leaves out the rows whose key is missing and orders the
  groups by key: numbers before texts, texts by code point. \<^verbatim>\<open>sum\<close> and \<^verbatim>\<open>mean\<close> skip the
  missing cells of the metric and work on the numbers that are left; the mean of no
  number is the missing-numeric marker. The result is the list of groups with their
  values, one entry per group. The metric is a series that \<^verbatim>\<open>to_numeric\<close> produced
  (\<open>numeric\<close>): numbers and missing-numeric markers.

  The arithmetic of the machine is an argument: \<open>machine_sum xs\<close> is the sum pandas
  computes for the numbers \<open>xs\<close> and \<open>machine_mean xs\<close> their mean, rounded where floating
  point rounds and wrapped where 64-bit integers wrap. Nothing is assumed of them but
  that the sum of no number is 0.
\<close>

definition notna :: "cell \<Rightarrow> bool" where
  "notna v = (case v of NaN \<Rightarrow> False | NaT \<Rightarrow> False | _ \<Rightarrow> True)"

definition cell_rank :: "cell \<Rightarrow> nat \<times> rat \<times> string" where
  "cell_rank v = (case v of Num x \<Rightarrow> (0, x, []) | Str s \<Rightarrow> (1, 0, s)
                  | Timestamp t \<Rightarrow> (2, of_int t, []) | _ \<Rightarrow> (3, 0, []))"

definition group_keys :: "series \<Rightarrow> cell list" where
  "group_keys ks = sort_key cell_rank (remdups (filter notna ks))"

definition nums :: "series \<Rightarrow> rat list" where
  "nums s = concat (map (\<lambda>v. case v of Num x \<Rightarrow> [x] | _ \<Rightarrow> []) s)"

definition numeric :: "series \<Rightarrow> bool" where
  "numeric s = list_all (\<lambda>v. case v of Num x \<Rightarrow> True | NaN \<Rightarrow> True | _ \<Rightarrow> False) s"

definition agg_sum :: "(rat list \<Rightarrow> cell) \<Rightarrow> series \<Rightarrow> cell" where
  "agg_sum machine_sum s = machine_sum (nums s)"

definition agg_mean :: "(rat list \<Rightarrow> cell) \<Rightarrow> series \<Rightarrow> cell" where
  "agg_mean machine_mean s = (if nums s = [] then NaN else machine_mean (nums s))"

definition group_values :: "cell \<Rightarrow> series \<Rightarrow> series \<Rightarrow> series" where
  "group_values k ks vs = select (map (\<lambda>k'. k' = k) ks) vs"

definition groupby_agg :: "(series \<Rightarrow> cell) \<Rightarrow> string \<Rightarrow> string \<Rightarrow> frame \<Rightarrow> error + (cell \<times> cell) list" where
  "groupby_agg agg key metric f =
     bind (lookup key f) (\<lambda>ks.
     bind (lookup metric f) (\<lambda>vs.
       Inr (map (\<lambda>k. (k, agg (group_values k ks vs))) (group_keys ks))))"

text \<open>
  \<^verbatim>\<open>sort_values(ascending=False)\<close> puts the largest value first and the missing ones
  last; entries of equal value are kept in their order here (pandas leaves that to
  numpy's sort). \<^verbatim>\<open>head(10)\<close> keeps the first ten.
\<close>

definition value_rank :: "cell \<Rightarrow> nat \<times> rat" where
  "value_rank v = (case v of Num x \<Rightarrow> (0, - x) | _ \<Rightarrow> (1, 0))"

definition sort_values_desc :: "(cell \<times> cell) list \<Rightarrow> (cell \<times> cell) list" where
  "sort_values_desc r = sort_key (\<lambda>(k, v). value_rank v) r"

definition avg_time_by_lang :: "(rat list \<Rightarrow> cell) \<Rightarrow> frame \<Rightarrow> error + (cell \<times> cell) list" where
  "avg_time_by_lang machine_mean staging_df =
     bind (groupby_agg (agg_mean machine_mean) ''Language'' ''Billable time (numeric)'' staging_df) (\<lambda>r.
       Inr (take 10 (sort_values_desc r)))"

definition lep_borough :: "(rat list \<Rightarrow> cell) \<Rightarrow> frame \<Rightarrow> error + (cell \<times> cell) list" where
  "lep_borough machine_sum lep_df =
     groupby_agg (agg_sum machine_sum) ''Borough'' ''LEP Population (Estimate)'' lep_df"

section \<open>Loading\<close>

text \<open>
  What the network and the file system answer is an argument of the loaders: a reader
  gives the table it parsed, or the text of the exception it raised (\<^verbatim>\<open>str(e)\<close>, for the
  exceptions that \<^verbatim>\<open>except Exception\<close> catches). The cache in front of the loaders is not
  modelled.
\<close>

definition lass_url :: string where
  "lass_url = ''https://data.cityofnewyork.us/api/views/3m3d-zzwn/rows.csv?accessType=DOWNLOAD''"

definition lep_url :: string where
  "lep_url = ''https://data.cityofnewyork.us/api/views/ajin-gkbp/rows.csv?accessType=DOWNLOAD''"

definition load_lass_data :: "(string \<Rightarrow> string + frame) \<Rightarrow> frame option \<times> string option" where
  "load_lass_data read_csv =
     (case read_csv lass_url of
        Inr lass_df \<Rightarrow> (Some lass_df, None)
      | Inl e \<Rightarrow> (None, Some (''Error loading LASS data: '' @ e)))"

definition load_lep_data :: "(string \<Rightarrow> string + frame) \<Rightarrow> frame option \<times> string option" where
  "load_lep_data read_csv =
     (case read_csv lep_url of
        Inr lep_df \<Rightarrow> (Some lep_df, None)
      | Inl e \<Rightarrow> (None, Some (''Error loading LEP data: '' @ e)))"

text \<open>
  \<^verbatim>\<open>load_local_excel_files\<close> (sosi_app.py) fills a dictionary with one entry per file: the
  table of the first sheet, all sheets by name for the historical file, or None when the
  file is not there or anything raised while it was read.
\<close>

datatype sheet = Sheet_name string | Sheet_index nat

datatype loaded = Absent | Table frame | Sheets "(string \<times> frame) list"

record files =
  path_exists :: "string \<Rightarrow> bool"
  sheet_names :: "string \<Rightarrow> string + string list"
  read_excel :: "string \<Rightarrow> sheet \<Rightarrow> string + frame"

fun read_sheets :: "(string \<Rightarrow> sheet \<Rightarrow> string + frame) \<Rightarrow> string \<Rightarrow> string list
                      \<Rightarrow> string + (string \<times> frame) list" where
  "read_sheets rd filename [] = Inr []"
| "read_sheets rd filename (s # ss) =
     (case rd filename (Sheet_name s) of
        Inl e \<Rightarrow> Inl e
      | Inr df \<Rightarrow> (case read_sheets rd filename ss of
                     Inl e \<Rightarrow> Inl e
                   | Inr rest \<Rightarrow> Inr ((s, df) # rest)))"

definition load_file :: "files \<Rightarrow> string \<Rightarrow> string \<Rightarrow> loaded" where
  "load_file fs key filename =
     (if path_exists fs filename then
        (if key = ''historical'' then
           (case sheet_names fs filename of
              Inl e \<Rightarrow> Absent
            | Inr names \<Rightarrow> (case read_sheets (read_excel fs) filename names of
                              Inl e \<Rightarrow> Absent
                            | Inr d \<Rightarrow> Sheets d))
         else
           (case read_excel fs filename (Sheet_index 0) of
              Inl e \<Rightarrow> Absent
            | Inr df \<Rightarrow> Table df))
      else Absent)"

definition excel_files :: "(string \<times> string) list" where
  "excel_files = [(''historical'', ''AllDataAnalysis_20250908_194306.xlsx''),
                  (''linguists'', ''SOSiApprovedLinguists (1).xlsx''),
                  (''staging'', ''tblStaging_Raw.xlsx'')]"

definition load_local_excel_files :: "files \<Rightarrow> (string \<times> loaded) list" where
  "load_local_excel_files fs = map (\<lambda>(key, filename). (key, load_file fs key filename)) excel_files"

section \<open>Tables as objects: copies and assignments in place\<close>

text \<open>
  Whether a function changes the table it was given is a question about objects, not
  values: the heap is the list of the frames allocated so far, and a variable holds None
  or the position of a frame in it. \<^verbatim>\<open>clean_lass_data\<close> and \<^verbatim>\<open>clean_lep_data\<close> start with
  \<^verbatim>\<open>df = df.copy()\<close> and work on the copy, so their result is a new object.
\<close>

type_synonym heap = "frame list"

definition clean_lass_data_at :: "heap \<Rightarrow> nat option \<Rightarrow> heap \<times> (error + nat option)" where
  "clean_lass_data_at h df =
     (case df of
        None \<Rightarrow> (h, Inr None)
      | Some p \<Rightarrow>
          (case clean_lass_data (Some (h ! p)) of
             Inl e \<Rightarrow> (h, Inl e)
           | Inr None \<Rightarrow> (h, Inr None)
           | Inr (Some g) \<Rightarrow> (h @ [g], Inr (Some (length h)))))"

definition clean_lep_data_at :: "(string \<Rightarrow> rat option) \<Rightarrow> heap \<Rightarrow> nat option \<Rightarrow> heap \<times> (error + nat option)" where
  "clean_lep_data_at parse h df =
     (case df of
        None \<Rightarrow> (h, Inr None)
      | Some p \<Rightarrow>
          (case clean_lep_data parse (Some (h ! p)) of
             Inl e \<Rightarrow> (h, Inl e)
           | Inr None \<Rightarrow> (h, Inr None)
           | Inr (Some g) \<Rightarrow> (h @ [g], Inr (Some (length h)))))"

text \<open>
  The two dashboards' date columns (sosi_app.py): \<^verbatim>\<open>df[col] = pd.to_datetime(df[col],
  errors='coerce')\<close> for each listed column the table has, assigned into the table that
  \<^verbatim>\<open>local_data\<close> holds. How pandas reads a date from a cell is the argument \<open>conv\<close>; a cell
  it cannot read becomes the missing-date marker.
\<close>

definition to_datetime :: "(cell \<Rightarrow> int option) \<Rightarrow> series \<Rightarrow> series" where
  "to_datetime conv s = map (\<lambda>v. case conv v of Some t \<Rightarrow> Timestamp t | None \<Rightarrow> NaT) s"

fun coerce_dates :: "(cell \<Rightarrow> int option) \<Rightarrow> string list \<Rightarrow> frame \<Rightarrow> frame" where
  "coerce_dates conv [] f = f"
| "coerce_dates conv (col # cols) f =
     coerce_dates conv cols
       (case getitem col f of Some s \<Rightarrow> setitem col (to_datetime conv s) f | None \<Rightarrow> f)"

definition empty :: "frame \<Rightarrow> bool" where
  "empty f = (nrows f = 0 \<or> columns f = [])"

definition trends_dates :: "(cell \<Rightarrow> int option) \<Rightarrow> heap \<Rightarrow> nat option \<Rightarrow> heap" where
  "trends_dates conv h hist_data =
     (case hist_data of
        Some p \<Rightarrow> if \<not> empty (h ! p)
                  then h[p := coerce_dates conv [''Request Date'', ''Hearing Date'', ''Row Added''] (h ! p)]
                  else h
      | None \<Rightarrow> h)"

definition staging_dates :: "(cell \<Rightarrow> int option) \<Rightarrow> heap \<Rightarrow> nat option \<Rightarrow> heap" where
  "staging_dates conv h staging =
     (case staging of
        Some p \<Rightarrow> h[p := coerce_dates conv [''Date of request'', ''Hearing Date'', ''Timestamp''] (h ! p)]
      | None \<Rightarrow> h)"

section \<open>Example inputs\<close>

text \<open>Three survey records with one service column: answered yes, answered no, not answered.\<close>

definition guards_table :: frame where
  "guards_table =
     \<lparr>nrows = 3,
      columns = [(''Interaction with Security Guards'', [Str ''Yes'', Str ''No'', NaN])]\<rparr>"

definition guards_table_filled :: frame where
  "guards_table_filled =
     \<lparr>nrows = 3,
      columns = [(''Interaction with Security Guards'', [Str ''Yes'', Str ''No'', Str ''Unknown''])]\<rparr>"

text \<open>
  Two records with two service columns, one label with blanks around it, a cell that
  matches a positive and a negative token, a missing answer, and a population column
  read as text.
\<close>

definition staff_table :: frame where
  "staff_table =
     \<lparr>nrows = 2,
      columns = [('' Interaction with Reception Staff '', [Str ''Not good'', NaN]),
                 (''Interaction with Frontline Staff'', [Str ''yes'', Str ''Excellent'']),
                 (''LEP Population (Estimate)'', [Str ''1,200'', Str ''350''])]\<rparr>"

text \<open>An example of reading a number from a text: unsigned decimal integers only.\<close>

definition parse_digits :: "string \<Rightarrow> rat option" where
  "parse_digits s =
     (if s \<noteq> [] \<and> list_all (\<lambda>c. 48 \<le> (of_char c :: nat) \<and> (of_char c :: nat) \<le> 57) s
      then Some (of_nat (foldl (\<lambda>a c. 10 * a + (of_char c - 48)) 0 s))
      else None)"

text \<open>
  Three visits with an agency and a borough, and five interpreting jobs with a language
  and a billed time, one of them without language and two without time.
\<close>

definition visits_table :: frame where
  "visits_table =
     \<lparr>nrows = 3,
      columns = [(''Agency'', [Str ''DOHMH'', Str ''HRA'', Str ''DOHMH'']),
                 (''Borough'', [Str ''Queens'', Str ''Bronx'', Str ''Unknown''])]\<rparr>"

text \<open>
  An example of the machine's arithmetic: the exact sum and the exact mean, which is what
  floating point gives for a few small whole numbers.
\<close>

definition exact_total :: "rat list \<Rightarrow> cell" where
  "exact_total xs = Num (sum_list xs)"

definition exact_average :: "rat list \<Rightarrow> cell" where
  "exact_average xs = Num (sum_list xs / of_nat (length xs))"

definition billing_table :: frame where
  "billing_table =
     \<lparr>nrows = 5,
      columns = [(''Language'', [Str ''Spanish'', Str ''Arabic'', Str ''Spanish'', NaN, Str ''Spanish'']),
                 (''Billable time (numeric)'', [Num 10, NaN, NaN, Num 7, Num 20])]\<rparr>"

text \<open>
  A staging table with a hearing date read as text, files that exist and cannot be read,
  files that are not there, and a network that is down.
\<close>

definition hearings_table :: frame where
  "hearings_table =
     \<lparr>nrows = 2,
      columns = [(''Language'', [Str ''Spanish'', Str ''Arabic'']),
                 (''Hearing Date'', [Str ''2025-03-14'', Str ''to be set''])]\<rparr>"

definition corrupt_files :: files where
  "corrupt_files = \<lparr>path_exists = (\<lambda>filename. True),
                    sheet_names = (\<lambda>filename. Inl ''File is not a zip file''),
                    read_excel = (\<lambda>filename sh. Inl ''File is not a zip file'')\<rparr>"

definition missing_files :: files where
  "missing_files = \<lparr>path_exists = (\<lambda>filename. False),
                    sheet_names = (\<lambda>filename. Inl ''No such file or directory''),
                    read_excel = (\<lambda>filename sh. Inl ''No such file or directory'')\<rparr>"

text \<open>
  A historical file whose first sheet reads and whose second does not, and files that
  all read.
\<close>

definition half_read_files :: files where
  "half_read_files =
     \<lparr>path_exists = (\<lambda>filename. True),
      sheet_names = (\<lambda>filename. Inr [''All Historical Data'', ''Summary'']),
      read_excel = (\<lambda>filename sh. if sh = Sheet_name ''All Historical Data''
                                     then Inr hearings_table
                                     else Inl ''Worksheet cannot be parsed'')\<rparr>"

definition readable_files :: files where
  "readable_files =
     \<lparr>path_exists = (\<lambda>filename. True),
      sheet_names = (\<lambda>filename. Inr [''All Historical Data'']),
      read_excel = (\<lambda>filename sh. Inr hearings_table)\<rparr>"

definition no_network :: "string \<Rightarrow> string + frame" where
  "no_network url = Inl ''<urlopen error [Errno -2] Name or service not known>''"

section \<open>Notions used in the proofs\<close>

text \<open>
  None of these is a function of the program: they name the invariant of the scoring loop
  (every series as long as the index, the score column holding numbers), the change one
  cell of a service column makes to one score, which columns make the \<^verbatim>\<open>.str\<close> accessor
  raise, and the frames between the steps of \<^verbatim>\<open>clean_lass_data\<close>.
\<close>

definition lens_ok :: "frame \<Rightarrow> bool" where
  "lens_ok f = (\<forall>c \<in> set (columns f). length (snd c) = nrows f)"

definition is_Num :: "cell \<Rightarrow> bool" where
  "is_Num v = (case v of Num x \<Rightarrow> True | _ \<Rightarrow> False)"

definition str_ok :: "series \<Rightarrow> bool" where
  "str_ok s = (s = [] \<or> list_ex is_Str s)"

definition adjust :: "cell \<Rightarrow> cell \<Rightarrow> cell" where
  "adjust v x = (if contains_cell negative v then add_cell (- (1 / 2)) else id)
                  ((if contains_cell positive v then add_cell (1 / 2) else id) x)"

definition bad_col :: "frame \<Rightarrow> string \<Rightarrow> bool" where
  "bad_col f c = (case getitem c f of None \<Rightarrow> False | Some s \<Rightarrow> \<not> str_ok s)"

definition apply_col :: "frame \<Rightarrow> string \<Rightarrow> series \<Rightarrow> series" where
  "apply_col f c r = (case getitem c f of None \<Rightarrow> r | Some s \<Rightarrow> map2 adjust s r)"

definition prepared :: "frame \<Rightarrow> frame" where
  "prepared f = fillna (Str ''Unknown'') (strip_columns f)"

definition unscored :: "frame \<Rightarrow> frame" where
  "unscored f = setitem ''rating_score'' (replicate (nrows f) (Num 3)) (prepared f)"

definition scores :: "string list \<Rightarrow> frame \<Rightarrow> series" where
  "scores cols f = fold (apply_col (unscored f)) cols (replicate (nrows f) (Num 3))"

text \<open>
  What one cell of a service column adds to a score: a half when a positive token is
  found, less a half when a negative token is found, each test made on its own; and the
  same for the cell of column \<open>c\<close> in row \<open>i\<close> of a frame, nothing when the frame lacks
  the column.
\<close>

definition shift :: "cell \<Rightarrow> rat" where
  "shift v = (if contains_cell positive v then 1 / 2 else 0)
             - (if contains_cell negative v then 1 / 2 else 0)"

definition column_shift :: "frame \<Rightarrow> string \<Rightarrow> nat \<Rightarrow> rat" where
  "column_shift g c i = (case getitem c g of None \<Rightarrow> 0 | Some s \<Rightarrow> shift (s ! i))"

text \<open>
  The records of a frame, each a list of label and value, and what it means for a record
  to pass one column's list of accepted values: the record has no such column, the list
  is empty, or the record's value is in it.
\<close>

definition record_at :: "frame \<Rightarrow> nat \<Rightarrow> (string \<times> cell) list" where
  "record_at f i = map (\<lambda>(l, c). (l, c ! i)) (columns f)"

definition records :: "frame \<Rightarrow> (string \<times> cell) list list" where
  "records f = map (record_at f) [0..<nrows f]"

definition accepts :: "string \<Rightarrow> cell list \<Rightarrow> (string \<times> cell) list \<Rightarrow> bool" where
  "accepts col picked r =
     (case map_of r col of None \<Rightarrow> True | Some v \<Rightarrow> picked = [] \<or> v \<in> set picked)"

section \<open>Properties of the cleaning functions\<close>

lemma bind_simps [simp]: "bind (Inl e) k = Inl e" "bind (Inr x) k = k x"
  by (simp_all add: bind_def)

lemma in_labels_iff: "l \<in> set (labels f) \<longleftrightarrow> getitem l f \<noteq> None"
  by (simp add: labels_def getitem_def map_of_eq_None_iff)

lemma map_of_replace:
  "map_of (map (\<lambda>(k, c). if k = l then (k, s) else (k, c)) cs) k
     = (if k = l then (if l \<in> fst ` set cs then Some s else None) else map_of cs k)"
  by (induction cs) force+

lemma getitem_setitem: "getitem k (setitem l s f) = (if k = l then Some s else getitem k f)"
proof (cases "l \<in> set (labels f)")
  case True
  then show ?thesis
    by (simp add: getitem_def setitem_def map_of_replace labels_def)
next
  case False
  then have "map_of (columns f) l = None"
    by (simp add: labels_def map_of_eq_None_iff)
  with False show ?thesis
    by (simp add: getitem_def setitem_def map_add_def split: option.splits)
qed

lemma nrows_setitem [simp]: "nrows (setitem l s f) = nrows f"
  by (simp add: setitem_def)

lemma map_fst_replace:
  "map fst (map (\<lambda>(k, c). if k = l then (k, s) else (k, c)) cs) = map fst cs"
  by (induction cs) auto

lemma labels_setitem:
  "labels (setitem l s f) = (if l \<in> set (labels f) then labels f else labels f @ [l])"
  by (simp add: setitem_def labels_def map_fst_replace del: map_map)

lemma set_labels_setitem: "set (labels (setitem l s f)) = insert l (set (labels f))"
  by (auto simp: labels_setitem)

lemma map_replace_absent:
  "l \<notin> fst ` set cs \<Longrightarrow> map (\<lambda>(k, c). if k = l then (k, s) else (k, c)) cs = cs"
  by (induction cs) auto

lemma map_replace_twice:
  "map (\<lambda>(k, c). if k = l then (k, s) else (k, c))
     (map (\<lambda>(k, c). if k = l then (k, t) else (k, c)) cs)
   = map (\<lambda>(k, c). if k = l then (k, s) else (k, c)) cs"
  by (induction cs) auto

lemma setitem_setitem: "setitem l s (setitem l t f) = setitem l s f"
proof (cases "l \<in> set (labels f)")
  case True
  then have "l \<in> set (labels (setitem l t f))" by (simp add: labels_setitem)
  with True show ?thesis
    by (simp add: setitem_def map_replace_twice del: map_map)
next
  case False
  have "l \<in> set (labels (setitem l t f))" by (simp add: labels_setitem)
  with False show ?thesis
    by (simp add: setitem_def labels_def map_replace_absent)
qed

lemma lens_ok_setitem: "lens_ok f \<Longrightarrow> length s = nrows f \<Longrightarrow> lens_ok (setitem l s f)"
  by (auto simp: lens_ok_def setitem_def split: if_splits)

lemma lens_ok_getitem: "lens_ok f \<Longrightarrow> getitem l f = Some s \<Longrightarrow> length s = nrows f"
  by (force simp: lens_ok_def getitem_def dest: map_of_SomeD)

lemma map2_adjust:
  "map2 (\<lambda>m v. if m then add_cell (- (1 / 2)) v else v) (map (contains_cell negative) s)
     (map2 (\<lambda>m v. if m then add_cell (1 / 2) v else v) (map (contains_cell positive) s) r)
   = map2 adjust s r"
proof (induction s arbitrary: r)
  case Nil
  then show ?case by simp
next
  case (Cons v s)
  then show ?case by (cases r) (simp_all add: adjust_def)
qed

lemma adjust_commute: "adjust v (adjust w x) = adjust w (adjust v x)"
  by (cases x) (simp_all add: adjust_def add_cell_def)

lemma map2_adjust_commute:
  "map2 adjust s (map2 adjust t r) = map2 adjust t (map2 adjust s r)"
proof (induction r arbitrary: s t)
  case Nil
  then show ?case by simp
next
  case (Cons x r)
  show ?case
  proof (cases s)
    case Nil
    then show ?thesis by simp
  next
    case s: (Cons v s')
    show ?thesis
    proof (cases t)
      case Nil
      then show ?thesis by simp
    next
      case t: (Cons w t')
      show ?thesis
        by (simp add: s t Cons.IH adjust_commute)
    qed
  qed
qed

lemma apply_col_commute: "apply_col f a \<circ> apply_col f b = apply_col f b \<circ> apply_col f a"
  by (auto simp: apply_col_def fun_eq_iff map2_adjust_commute split: option.splits)

lemma is_Num_adjust: "is_Num x \<Longrightarrow> is_Num (adjust v x)"
  by (cases x) (simp_all add: adjust_def add_cell_def is_Num_def)

lemma list_all_map2_adjust: "list_all is_Num r \<Longrightarrow> list_all is_Num (map2 adjust s r)"
proof (induction s arbitrary: r)
  case Nil
  then show ?case by simp
next
  case (Cons v s)
  then show ?case by (cases r) (simp_all add: is_Num_adjust)
qed

lemma is_Num_not_Str: "is_Num v \<Longrightarrow> \<not> is_Str v"
  by (cases v) (simp_all add: is_Num_def is_Str_def)

lemma not_str_ok_Num: "list_all is_Num r \<Longrightarrow> str_ok r \<Longrightarrow> r = []"
  by (auto simp: str_ok_def list_ex_iff list_all_iff dest: is_Num_not_Str)

lemma str_contains_eq:
  "str_contains toks s = (if str_ok s then Inr (map (contains_cell toks) s) else Inl AttributeError)"
  by (simp add: str_contains_def str_ok_def)

text \<open>One pass of the loop body, on a frame whose score column holds numbers.\<close>

lemma score_column_eq:
  assumes "lens_ok f" and "getitem ''rating_score'' f = Some r" and "list_all is_Num r"
  shows "score_column c f =
     (case getitem c f of
        None \<Rightarrow> Inr f
      | Some s \<Rightarrow> if str_ok s then Inr (setitem ''rating_score'' (map2 adjust s r) f)
                  else Inl AttributeError)"
proof (cases "getitem c f")
  case None
  then show ?thesis by (simp add: score_column_def in_labels_iff)
next
  case (Some s)
  then have inl: "c \<in> set (labels f)" by (simp add: in_labels_iff)
  show ?thesis
  proof (cases "str_ok s")
    case False
    with Some inl show ?thesis
      by (simp add: score_column_def lookup_def str_contains_eq)
  next
    case True
    let ?r1 = "map2 (\<lambda>m v. if m then add_cell (1 / 2) v else v) (map (contains_cell positive) s) r"
    let ?f1 = "setitem ''rating_score'' ?r1 f"
    have s1: "getitem c ?f1 = Some (if c = ''rating_score'' then ?r1 else s)"
      using Some by (simp add: getitem_setitem)
    have eq: "(if c = ''rating_score'' then ?r1 else s) = s"
    proof (cases "c = ''rating_score''")
      case True
      with Some assms(2) have "s = r" by simp
      with assms(3) \<open>str_ok s\<close> have "r = []" "s = []" by (auto dest: not_str_ok_Num)
      then show ?thesis by simp
    next
      case False
      then show ?thesis by simp
    qed
    have s1': "getitem c ?f1 = Some s" using s1 eq by simp
    have r1: "getitem ''rating_score'' ?f1 = Some ?r1" by (simp add: getitem_setitem)
    show ?thesis
      using Some inl True assms(2) s1' r1
      by (simp add: score_column_def lookup_def str_contains_eq loc_iadd_def
                    setitem_setitem map2_adjust)
  qed
qed

lemma str_ok_Num_iff: "list_all is_Num r \<Longrightarrow> str_ok r \<longleftrightarrow> r = []"
  by (auto dest: not_str_ok_Num simp: str_ok_def)

lemma bad_col_setitem:
  assumes "getitem ''rating_score'' f = Some r" "list_all is_Num r" "list_all is_Num r'"
    and "length r' = length r"
  shows "bad_col (setitem ''rating_score'' r' f) c = bad_col f c"
proof (cases "c = ''rating_score''")
  case True
  have "str_ok r' \<longleftrightarrow> str_ok r"
    using assms by (simp add: str_ok_Num_iff) (metis length_0_conv)
  with True assms(1) show ?thesis by (simp add: bad_col_def getitem_setitem)
next
  case False
  then show ?thesis by (simp add: bad_col_def getitem_setitem)
qed

lemma apply_col_setitem:
  assumes "getitem ''rating_score'' f = Some r" "list_all is_Num r" "list_all is_Num r'"
    and "length r' = length r" and "\<not> bad_col f c"
  shows "apply_col (setitem ''rating_score'' r' f) c = apply_col f c"
proof (cases "c = ''rating_score''")
  case True
  with assms(1,5) have "str_ok r" by (simp add: bad_col_def)
  with assms(2) have "r = []" by (simp add: str_ok_Num_iff)
  with assms(4) have "r' = []" by simp
  with True assms(1) \<open>r = []\<close> show ?thesis
    by (simp add: apply_col_def getitem_setitem fun_eq_iff)
next
  case False
  then show ?thesis by (simp add: apply_col_def getitem_setitem fun_eq_iff)
qed

lemma length_apply_col:
  "lens_ok f \<Longrightarrow> length r = nrows f \<Longrightarrow> length (apply_col f c r) = nrows f"
  by (auto simp: apply_col_def split: option.splits dest: lens_ok_getitem)

lemma is_Num_apply_col: "list_all is_Num r \<Longrightarrow> list_all is_Num (apply_col f c r)"
  by (auto simp: apply_col_def list_all_map2_adjust split: option.splits)

lemma length_fold_apply_col:
  "lens_ok f \<Longrightarrow> length r = nrows f \<Longrightarrow> length (fold (apply_col f) cols r) = nrows f"
  by (induction cols arbitrary: r) (simp_all add: length_apply_col)

lemma is_Num_fold_apply_col:
  "list_all is_Num r \<Longrightarrow> list_all is_Num (fold (apply_col f) cols r)"
  by (induction cols arbitrary: r) (simp_all add: is_Num_apply_col)

text \<open>The whole loop: it fails when a listed column that is present has rows and no text,
  and otherwise rewrites the score column only.\<close>

lemma score_loop_eq:
  assumes "lens_ok f" and "getitem ''rating_score'' f = Some r" and "list_all is_Num r"
    and "setitem ''rating_score'' r f = f"
  shows "score_loop cols f =
     (if \<exists>c \<in> set cols. bad_col f c then Inl AttributeError
      else Inr (setitem ''rating_score'' (fold (apply_col f) cols r) f))"
  using assms
proof (induction cols arbitrary: f r)
  case Nil
  then show ?case by simp
next
  case (Cons c cols)
  note step = score_column_eq [OF Cons.prems(1-3), of c]
  have len: "length r = nrows f" using Cons.prems by (auto dest: lens_ok_getitem)
  show ?case
  proof (cases "getitem c f")
    case None
    then have "\<not> bad_col f c" "apply_col f c r = r"
      by (simp_all add: bad_col_def apply_col_def)
    with None step Cons.IH [OF Cons.prems] show ?thesis by simp
  next
    case (Some s)
    show ?thesis
    proof (cases "str_ok s")
      case False
      with Some step show ?thesis by (simp add: bad_col_def)
    next
      case True
      let ?r' = "apply_col f c r"
      let ?f' = "setitem ''rating_score'' ?r' f"
      have r': "?r' = map2 adjust s r" using Some by (simp add: apply_col_def)
      have sc: "score_column c f = Inr ?f'" using step Some True r' by simp
      have nb: "\<not> bad_col f c" using Some True by (simp add: bad_col_def)
      have lr': "length ?r' = nrows f" using Cons.prems(1) len by (rule length_apply_col)
      have ll: "length ?r' = length r" using lr' len by simp
      have nr': "list_all is_Num ?r'" using Cons.prems(3) by (rule is_Num_apply_col)
      have ok': "lens_ok ?f'" using Cons.prems(1) lr' by (rule lens_ok_setitem)
      have g': "getitem ''rating_score'' ?f' = Some ?r'" by (simp add: getitem_setitem)
      have bad: "\<And>x. bad_col ?f' x = bad_col f x"
        using Cons.prems(2,3) nr' ll by (rule bad_col_setitem)
      have IH: "score_loop cols ?f' =
         (if \<exists>x \<in> set cols. bad_col f x then Inl AttributeError
          else Inr (setitem ''rating_score'' (fold (apply_col ?f') cols ?r') f))"
        using Cons.IH [OF ok' g' nr'] by (simp add: bad setitem_setitem)
      have fold_eq: "fold (apply_col ?f') cols ?r' = fold (apply_col f) cols ?r'"
        if "\<forall>x \<in> set cols. \<not> bad_col f x"
      proof (rule fold_cong [OF refl refl])
        fix x assume "x \<in> set cols"
        with that have "\<not> bad_col f x" by simp
        with Cons.prems(2,3) nr' ll show "apply_col ?f' x = apply_col f x"
          by (rule apply_col_setitem)
      qed
      show ?thesis
        using sc IH nb fold_eq by auto
    qed
  qed
qed

lemma wf_frame_lens_ok: "wf_frame f \<Longrightarrow> lens_ok f"
  by (simp add: wf_frame_def lens_ok_def)

lemma nrows_fillna [simp]: "nrows (fillna d f) = nrows f"
  by (simp add: fillna_def)

lemma nrows_strip_columns [simp]: "nrows (strip_columns f) = nrows f"
  by (simp add: strip_columns_def)

lemma nrows_prepared [simp]: "nrows (prepared f) = nrows f"
  by (simp add: prepared_def)

lemma lens_ok_prepared: "lens_ok f \<Longrightarrow> lens_ok (prepared f)"
  by (auto simp: lens_ok_def prepared_def fillna_def strip_columns_def)

lemma lens_ok_unscored: "lens_ok f \<Longrightarrow> lens_ok (unscored f)"
  unfolding unscored_def by (rule lens_ok_setitem) (simp_all add: lens_ok_prepared)

lemma list_all_replicate_Num: "list_all is_Num (replicate n (Num x))"
  by (simp add: list_all_iff is_Num_def)

lemma clean_lass_eq:
  assumes "lens_ok f"
  shows "clean_lass cols (Some f) =
     (if \<exists>c \<in> set cols. bad_col (unscored f) c then Inl AttributeError
      else Inr (Some (setitem ''rating_score'' (map (clip_cell 1 5) (scores cols f)) (prepared f))))"
proof -
  let ?r = "replicate (nrows f) (Num 3)"
  have loop: "score_loop cols (unscored f) =
     (if \<exists>c \<in> set cols. bad_col (unscored f) c then Inl AttributeError
      else Inr (setitem ''rating_score'' (scores cols f) (unscored f)))"
    unfolding scores_def
  proof (rule score_loop_eq)
    show "lens_ok (unscored f)" using assms by (rule lens_ok_unscored)
    show "getitem ''rating_score'' (unscored f) = Some ?r"
      by (simp add: unscored_def getitem_setitem)
    show "list_all is_Num ?r" by (rule list_all_replicate_Num)
    show "setitem ''rating_score'' ?r (unscored f) = unscored f"
      by (simp add: unscored_def setitem_setitem)
  qed
  have "clean_lass cols (Some f) =
      bind (score_loop cols (unscored f)) (\<lambda>f4.
        bind (lookup ''rating_score'' f4) (\<lambda>r.
          Inr (Some (setitem ''rating_score'' (map (clip_cell 1 5) r) f4))))"
    by (simp add: clean_lass_def unscored_def prepared_def Let_def)
  also have "\<dots> = (if \<exists>c \<in> set cols. bad_col (unscored f) c then Inl AttributeError
      else Inr (Some (setitem ''rating_score'' (map (clip_cell 1 5) (scores cols f)) (prepared f))))"
  proof (cases "\<exists>c \<in> set cols. bad_col (unscored f) c")
    case True
    then show ?thesis by (simp only: loop if_True bind_simps)
  next
    case False
    have "setitem ''rating_score'' (map (clip_cell 1 5) (scores cols f))
            (setitem ''rating_score'' (scores cols f) (unscored f))
          = setitem ''rating_score'' (map (clip_cell 1 5) (scores cols f)) (prepared f)"
      by (simp add: unscored_def setitem_setitem)
    with False show ?thesis
      by (simp add: loop lookup_def getitem_setitem)
  qed
  finally show ?thesis .
qed

lemma nrows_unscored [simp]: "nrows (unscored f) = nrows f"
  by (simp add: unscored_def)

lemma length_scores:
  assumes "lens_ok f"
  shows "length (scores cols f) = nrows f"
proof -
  have "lens_ok (unscored f)" using assms by (rule lens_ok_unscored)
  moreover have "length (replicate (nrows f) (Num 3)) = nrows (unscored f)" by simp
  ultimately have "length (scores cols f) = nrows (unscored f)"
    unfolding scores_def by (rule length_fold_apply_col)
  then show ?thesis by simp
qed

lemma is_Num_scores: "list_all is_Num (scores cols f)"
  unfolding scores_def by (rule is_Num_fold_apply_col) (rule list_all_replicate_Num)

lemma clip_cell_range: "is_Num v \<Longrightarrow> \<exists>x. clip_cell 1 5 v = Num x \<and> 1 \<le> x \<and> x \<le> 5"
  by (cases v) (simp_all add: is_Num_def clip_cell_def)

text \<open>
  C7. Whatever the list of signal columns and whichever of them the table has, every
  record of the cleaned table has a score, and it is a number between 1 and 5.
\<close>

theorem rating_score_clamped:
  assumes "wf_frame f" and "clean_lass cols (Some f) = Inr (Some f')"
  shows "\<exists>r. getitem ''rating_score'' f' = Some r \<and> length r = nrows f
             \<and> (\<forall>v \<in> set r. \<exists>x. v = Num x \<and> 1 \<le> x \<and> x \<le> 5)"
proof -
  have ok: "lens_ok f" using assms(1) by (rule wf_frame_lens_ok)
  let ?r = "map (clip_cell 1 5) (scores cols f)"
  from assms(2) have f': "f' = setitem ''rating_score'' ?r (prepared f)"
    by (simp add: clean_lass_eq [OF ok] split: if_splits)
  have "getitem ''rating_score'' f' = Some ?r" by (simp add: f' getitem_setitem)
  moreover have "length ?r = nrows f" by (simp add: length_scores ok)
  moreover have "\<forall>v \<in> set ?r. \<exists>x. v = Num x \<and> 1 \<le> x \<and> x \<le> 5"
    using is_Num_scores [of cols f] by (auto simp: list_all_iff dest: clip_cell_range)
  ultimately show ?thesis by blast
qed

theorem rating_score_clamped_witness:
  "wf_frame guards_table
   \<and> clean_lass service_columns (Some guards_table) =
       Inr (Some \<lparr>nrows = 3,
                  columns = [(''Interaction with Security Guards'', [Str ''Yes'', Str ''No'', Str ''Unknown'']),
                             (''rating_score'', [Num (7 / 2), Num (5 / 2), Num (5 / 2)])]\<rparr>)
   \<and> (\<exists>r. getitem ''rating_score''
              \<lparr>nrows = 3,
               columns = [(''Interaction with Security Guards'', [Str ''Yes'', Str ''No'', Str ''Unknown'']),
                          (''rating_score'', [Num (7 / 2), Num (5 / 2), Num (5 / 2)])]\<rparr> = Some r
          \<and> length r = 3 \<and> (\<forall>v \<in> set r. \<exists>x. v = Num x \<and> 1 \<le> x \<and> x \<le> 5))"
proof -
  have wf: "wf_frame guards_table" by code_simp
  have run: "clean_lass service_columns (Some guards_table) =
       Inr (Some \<lparr>nrows = 3,
                  columns = [(''Interaction with Security Guards'', [Str ''Yes'', Str ''No'', Str ''Unknown'']),
                             (''rating_score'', [Num (7 / 2), Num (5 / 2), Num (5 / 2)])]\<rparr>)"
    by code_simp
  have "nrows guards_table = 3" by (simp add: guards_table_def)
  with rating_score_clamped [OF wf run] wf run show ?thesis by simp
qed

lemma scores_perm: "mset cols = mset cols' \<Longrightarrow> scores cols f = scores cols' f"
  unfolding scores_def
  by (rule fun_cong [OF fold_multiset_equiv]) (simp_all add: apply_col_commute)

lemma clean_lass_perm_s:
  assumes "wf_frame f" and "mset cols = mset cols'"
  shows "clean_lass cols (Some f) = clean_lass cols' (Some f)"
proof -
  have ok: "lens_ok f" using assms(1) by (rule wf_frame_lens_ok)
  have "set cols = set cols'" using assms(2) by (rule mset_eq_setD)
  then show ?thesis
    by (simp add: clean_lass_eq [OF ok] scores_perm [OF assms(2)])
qed

lemma dropWhile_strip: "dropWhile is_space (strip s) = strip s"
proof -
  let ?A = "dropWhile is_space s"
  let ?B = "dropWhile is_space (rev ?A)"
  show ?thesis
  proof (cases "?B = []")
    case True
    then have "strip s = []" by (simp only: strip_def rev.simps)
    then show ?thesis by simp
  next
    case False
    have "rev ?A = takeWhile is_space (rev ?A) @ ?B" by simp
    then have "last (rev ?A) = last ?B" using False by (metis last_appendR)
    moreover have "?A \<noteq> []"
    proof
      assume "?A = []"
      then have "?B = []" by (simp only: rev.simps dropWhile.simps)
      with False show False by contradiction
    qed
    ultimately have "hd ?A = last ?B" by (simp add: last_rev)
    moreover have "\<not> is_space (hd ?A)" using \<open>?A \<noteq> []\<close> by (rule hd_dropWhile)
    ultimately have "\<not> is_space (hd (rev ?B))" using False by (simp add: hd_rev)
    then show ?thesis by (simp add: strip_def dropWhile_eq_self_iff)
  qed
qed

lemma strip_strip: "strip (strip s) = strip s"
proof -
  have "strip (strip s) = rev (dropWhile is_space (rev (strip s)))"
    by (simp add: strip_def [of "strip s"] dropWhile_strip)
  also have "\<dots> = strip s" by (simp add: strip_def)
  finally show ?thesis .
qed

lemma strip_rating_score: "strip ''rating_score'' = ''rating_score''"
  by (simp add: strip_def is_space_def)




lemma labels_strip_columns: "labels (strip_columns f) = map strip (labels f)"
  by (simp add: labels_def strip_columns_def comp_def case_prod_beta)

lemma labels_fillna: "labels (fillna d f) = labels f"
  by (simp add: labels_def fillna_def comp_def case_prod_beta)

lemma labels_prepared: "labels (prepared f) = map strip (labels f)"
  by (simp add: prepared_def labels_fillna labels_strip_columns)

lemma strip_columns_id:
  assumes "\<forall>l \<in> set (labels g). strip l = l"
  shows "strip_columns g = g"
proof -
  have "map (\<lambda>(l, c). (strip l, c)) (columns g) = columns g"
    using assms by (intro map_idI) (auto simp: labels_def)
  then show ?thesis by (simp add: strip_columns_def)
qed

lemma fillna_id:
  assumes "\<forall>c \<in> set (columns g). \<forall>v \<in> set (snd c). fill_cell d v = v"
  shows "fillna d g = g"
proof -
  have "map (\<lambda>(l, c). (l, map (fill_cell d) c)) (columns g) = columns g"
    using assms by (intro map_idI) (auto simp: map_idI)
  then show ?thesis by (simp add: fillna_def)
qed

lemma columns_setitem:
  "c \<in> set (columns (setitem l x g)) \<Longrightarrow> c = (l, x) \<or> c \<in> set (columns g)"
  by (auto simp: setitem_def split: if_splits)

lemma fill_cell_filled: "fill_cell (Str u) (fill_cell (Str u) v) = fill_cell (Str u) v"
  by (cases v) (simp_all add: fill_cell_def)

lemma fill_cell_Num: "is_Num v \<Longrightarrow> fill_cell d v = v"
  by (cases v) (simp_all add: fill_cell_def is_Num_def)

lemma cells_prepared:
  "c \<in> set (columns (prepared f)) \<Longrightarrow> v \<in> set (snd c) \<Longrightarrow> fill_cell (Str ''Unknown'') v = v"
  by (auto simp: prepared_def fillna_def strip_columns_def fill_cell_filled)

lemma strip_labels_prepared: "l \<in> set (labels (prepared f)) \<Longrightarrow> strip l = l"
  by (auto simp: labels_prepared strip_strip)

lemma prepared_idem: "prepared (prepared f) = prepared f"
proof -
  have "strip_columns (prepared f) = prepared f"
    by (rule strip_columns_id) (simp add: strip_labels_prepared)
  moreover have "fillna (Str ''Unknown'') (prepared f) = prepared f"
    by (rule fillna_id) (auto dest: cells_prepared)
  ultimately show ?thesis by (simp add: prepared_def [of "prepared f"])
qed

lemma prepared_scored:
  assumes "list_all is_Num x"
  shows "prepared (setitem ''rating_score'' x (prepared f)) = setitem ''rating_score'' x (prepared f)"
proof -
  let ?g = "setitem ''rating_score'' x (prepared f)"
  have "strip_columns ?g = ?g"
    by (rule strip_columns_id)
       (auto simp: set_labels_setitem strip_rating_score strip_labels_prepared)
  moreover have "fillna (Str ''Unknown'') ?g = ?g"
  proof (rule fillna_id, intro ballI)
    fix c v assume "c \<in> set (columns ?g)" "v \<in> set (snd c)"
    then consider "c = (''rating_score'', x)" | "c \<in> set (columns (prepared f))"
      by (auto dest: columns_setitem)
    then show "fill_cell (Str ''Unknown'') v = v"
    proof cases
      case 1
      with \<open>v \<in> set (snd c)\<close> assms have "is_Num v" by (simp add: list_all_iff)
      then show ?thesis by (rule fill_cell_Num)
    next
      case 2
      then show ?thesis using \<open>v \<in> set (snd c)\<close> by (rule cells_prepared)
    qed
  qed
  ultimately show ?thesis by (simp add: prepared_def [of ?g])
qed

lemma is_Num_clip: "list_all is_Num r \<Longrightarrow> list_all is_Num (map (clip_cell lo hi) r)"
  by (auto simp: list_all_iff is_Num_def clip_cell_def split: cell.splits)

lemma clean_lass_idem:
  assumes "lens_ok f"
  shows "bind (clean_lass cols (Some f)) (clean_lass cols) = clean_lass cols (Some f)"
proof (cases "\<exists>c \<in> set cols. bad_col (unscored f) c")
  case True
  then show ?thesis by (simp add: clean_lass_eq [OF assms])
next
  case False
  let ?x = "map (clip_cell 1 5) (scores cols f)"
  let ?g = "setitem ''rating_score'' ?x (prepared f)"
  have first: "clean_lass cols (Some f) = Inr (Some ?g)"
    using False by (simp add: clean_lass_eq [OF assms])
  have numx: "list_all is_Num ?x" by (rule is_Num_clip) (rule is_Num_scores)
  have ok: "lens_ok ?g"
    by (rule lens_ok_setitem) (simp_all add: lens_ok_prepared assms length_scores)
  have prep: "prepared ?g = ?g" using numx by (rule prepared_scored)
  have uns: "unscored ?g = unscored f"
    by (simp add: unscored_def [of ?g] prep setitem_setitem) (simp add: unscored_def)
  have sc: "scores cols ?g = scores cols f"
    by (simp add: scores_def [of cols ?g] uns) (simp add: scores_def)
  have "clean_lass cols (Some ?g) = Inr (Some ?g)"
    using False by (simp add: clean_lass_eq [OF ok] uns sc prep setitem_setitem)
  then show ?thesis by (simp add: first)
qed

lemma fillna_setitem:
  "fillna d (setitem l y h) = setitem l (map (fill_cell d) y) (fillna d h)"
  by (simp add: setitem_def labels_fillna) (simp add: fillna_def comp_def case_prod_beta if_distrib cong: if_cong)

lemma to_numeric_fill:
  assumes "parse ''Unknown'' = None"
  shows "to_numeric parse (map (fill_cell (Str ''Unknown'')) (to_numeric parse s)) = to_numeric parse s"
  using assms by (induction s) (auto simp: to_numeric_def fill_cell_def split: cell.splits option.splits)

lemma clean_lep_idem:
  assumes "parse ''Unknown'' = None"
  shows "bind (clean_lep_data parse (Some f)) (clean_lep_data parse) = clean_lep_data parse (Some f)"
proof (cases "getitem ''LEP Population (Estimate)'' (prepared f)")
  case None
  then have "''LEP Population (Estimate)'' \<notin> set (labels (prepared f))"
    by (simp add: in_labels_iff)
  then have "clean_lep_data parse (Some g) = Inr (Some (prepared f))" if "prepared g = prepared f" for g
    using that by (simp add: clean_lep_data_def Let_def prepared_def)
  then show ?thesis by (simp add: prepared_idem)
next
  case (Some s)
  let ?L = "''LEP Population (Estimate)''"
  let ?y = "to_numeric parse s"
  let ?g = "setitem ?L ?y (prepared f)"
  have inl: "?L \<in> set (labels (prepared f))" using Some by (simp add: in_labels_iff)
  have first: "clean_lep_data parse (Some f) = Inr (Some ?g)"
    using inl Some by (simp add: clean_lep_data_def Let_def prepared_def [symmetric] lookup_def)
  have "labels ?g = labels (prepared f)" using inl by (simp add: labels_setitem)
  then have "strip_columns ?g = ?g"
    by (intro strip_columns_id) (simp add: strip_labels_prepared)
  moreover have "fillna (Str ''Unknown'') (prepared f) = prepared f"
    by (rule fillna_id) (auto dest: cells_prepared)
  ultimately have prep: "prepared ?g = setitem ?L (map (fill_cell (Str ''Unknown'')) ?y) (prepared f)"
    by (simp add: prepared_def [of ?g] fillna_setitem)
  have renum: "to_numeric parse (map (fill_cell (Str ''Unknown'')) ?y) = ?y"
    using assms by (rule to_numeric_fill)
  have "clean_lep_data parse (Some ?g) = Inr (Some ?g)"
    using inl
    by (simp add: clean_lep_data_def Let_def prepared_def [symmetric] prep lookup_def
                  set_labels_setitem getitem_setitem setitem_setitem renum)
  then show ?thesis by (simp add: first)
qed

lemma adjust_Num_shift: "adjust v (Num x) = Num (x + shift v)"
  by (simp add: adjust_def add_cell_def shift_def)

lemma map2_nth:
  assumes "length s = n"
  shows "map2 h s (map g [0..<n]) = map (\<lambda>i. h (s ! i) (g i)) [0..<n]"
  using assms by (intro nth_equalityI) simp_all

lemma apply_col_sum:
  assumes "lens_ok g" and "nrows g = n"
  shows "apply_col g c (map (\<lambda>i. Num (a i)) [0..<n])
           = map (\<lambda>i. Num (a i + column_shift g c i)) [0..<n]"
proof (cases "getitem c g")
  case None
  then show ?thesis by (simp add: apply_col_def column_shift_def)
next
  case (Some s)
  have "length s = n" using lens_ok_getitem [OF assms(1) Some] assms(2) by simp
  then have "map2 adjust s (map (\<lambda>i. Num (a i)) [0..<n])
               = map (\<lambda>i. adjust (s ! i) (Num (a i))) [0..<n]"
    by (rule map2_nth)
  with Some show ?thesis by (simp add: apply_col_def column_shift_def adjust_Num_shift)
qed

lemma fold_apply_col_sum:
  assumes "lens_ok g" and "nrows g = n"
  shows "fold (apply_col g) cols (map (\<lambda>i. Num (a i)) [0..<n])
           = map (\<lambda>i. Num (a i + sum_list (map (\<lambda>c. column_shift g c i) cols))) [0..<n]"
proof (induction cols arbitrary: a)
  case Nil
  then show ?case by simp
next
  case (Cons c cols)
  have "fold (apply_col g) (c # cols) (map (\<lambda>i. Num (a i)) [0..<n])
          = fold (apply_col g) cols (map (\<lambda>i. Num (a i + column_shift g c i)) [0..<n])"
    by (simp add: apply_col_sum [OF assms])
  also have "\<dots> = map (\<lambda>i. Num (a i + column_shift g c i
                                  + sum_list (map (\<lambda>c. column_shift g c i) cols))) [0..<n]"
    by (rule Cons.IH)
  finally show ?case by (simp add: add.assoc)
qed

lemma scores_sum:
  assumes "lens_ok f"
  shows "scores cols f
           = map (\<lambda>i. Num (3 + sum_list (map (\<lambda>c. column_shift (unscored f) c i) cols)))
               [0..<nrows f]"
proof -
  have "replicate (nrows f) (Num 3) = map (\<lambda>i. Num 3) [0..<nrows f]"
    by (simp add: map_replicate_const)
  then have "scores cols f = fold (apply_col (unscored f)) cols (map (\<lambda>i. Num 3) [0..<nrows f])"
    by (simp add: scores_def)
  also have "\<dots> = map (\<lambda>i. Num (3 + sum_list (map (\<lambda>c. column_shift (unscored f) c i) cols)))
                       [0..<nrows f]"
    by (rule fold_apply_col_sum) (simp_all add: lens_ok_unscored assms)
  finally show ?thesis .
qed

lemma clean_lass_sum:
  assumes "wf_frame f"
  shows "clean_lass cols (Some f) =
     (if \<exists>c \<in> set cols. bad_col (unscored f) c then Inl AttributeError
      else Inr (Some (setitem ''rating_score''
             (map (\<lambda>i. Num (min 5 (max 1
                     (3 + sum_list (map (\<lambda>c. column_shift (unscored f) c i) cols)))))
                  [0..<nrows f])
             (prepared f))))"
proof -
  have ok: "lens_ok f" using assms by (rule wf_frame_lens_ok)
  have "map (clip_cell 1 5) (scores cols f)
          = map (\<lambda>i. Num (min 5 (max 1
                     (3 + sum_list (map (\<lambda>c. column_shift (unscored f) c i) cols)))))
                  [0..<nrows f]"
    by (simp add: scores_sum [OF ok] clip_cell_def comp_def)
  then show ?thesis by (simp add: clean_lass_eq [OF ok])
qed

lemma shift_both: "contains_cell positive v \<Longrightarrow> contains_cell negative v \<Longrightarrow> shift v = 0"
  by (simp add: shift_def)

text \<open>
  C9. The score is a function of the table and the list of signal columns. For every
  list it is, for each record, 3 plus what the record's cells in the listed columns
  add, clipped to 1 and 5; the columns are read from the table as it enters the loop
  (labels trimmed, cells filled, score column set to 3), and the call raises exactly when
  a listed column that is present has rows and no text. So the score does not change
  when the list is permuted, and a cell matching a positive and a negative token adds a
  half and takes a half: nothing.
\<close>

theorem score_order_free_and_additive:
  "(wf_frame f \<longrightarrow>
      clean_lass cols (Some f) =
        (if \<exists>c \<in> set cols. bad_col (unscored f) c then Inl AttributeError
         else Inr (Some (setitem ''rating_score''
                (map (\<lambda>i. Num (min 5 (max 1
                        (3 + sum_list (map (\<lambda>c. column_shift (unscored f) c i) cols)))))
                     [0..<nrows f])
                (prepared f)))))
   \<and> (wf_frame f \<and> mset cols = mset cols' \<longrightarrow>
        clean_lass cols (Some f) = clean_lass cols' (Some f))
   \<and> shift v = (if contains_cell positive v then 1 / 2 else 0)
                - (if contains_cell negative v then 1 / 2 else 0)
   \<and> (contains_cell positive v \<and> contains_cell negative v \<longrightarrow> shift v = 0)"
  using clean_lass_sum [of f cols] clean_lass_perm_s [of f cols cols']
  by (simp add: shift_def)

theorem score_order_free_and_additive_witness:
  "wf_frame staff_table
   \<and> clean_lass service_columns (Some staff_table) =
       Inr (Some \<lparr>nrows = 2,
                  columns = [(''Interaction with Reception Staff'', [Str ''Not good'', Str ''Unknown'']),
                             (''Interaction with Frontline Staff'', [Str ''yes'', Str ''Excellent'']),
                             (''LEP Population (Estimate)'', [Str ''1,200'', Str ''350'']),
                             (''rating_score'', [Num (7 / 2), Num 3])]\<rparr>)
   \<and> mset [''Interaction with Reception Staff'', ''Interaction with Frontline Staff'']
       = mset [''Interaction with Frontline Staff'', ''Interaction with Reception Staff'']
   \<and> clean_lass [''Interaction with Reception Staff'', ''Interaction with Frontline Staff''] (Some staff_table)
       = clean_lass [''Interaction with Frontline Staff'', ''Interaction with Reception Staff''] (Some staff_table)
   \<and> contains_cell positive (Str ''Not good'') \<and> contains_cell negative (Str ''Not good'')
   \<and> shift (Str ''Not good'') = 0"
proof -
  have wf: "wf_frame staff_table" by code_simp
  have perm: "mset [''Interaction with Reception Staff'', ''Interaction with Frontline Staff'']
       = mset [''Interaction with Frontline Staff'', ''Interaction with Reception Staff'']"
    by (simp add: add.commute)
  have pos: "contains_cell positive (Str ''Not good'')" by code_simp
  have neg: "contains_cell negative (Str ''Not good'')" by code_simp
  have rhs: "(if \<exists>c \<in> set service_columns. bad_col (unscored staff_table) c then Inl AttributeError
         else Inr (Some (setitem ''rating_score''
                (map (\<lambda>i. Num (min 5 (max 1
                        (3 + sum_list (map (\<lambda>c. column_shift (unscored staff_table) c i) service_columns)))))
                     [0..<nrows staff_table])
                (prepared staff_table))))
       = Inr (Some \<lparr>nrows = 2,
                  columns = [(''Interaction with Reception Staff'', [Str ''Not good'', Str ''Unknown'']),
                             (''Interaction with Frontline Staff'', [Str ''yes'', Str ''Excellent'']),
                             (''LEP Population (Estimate)'', [Str ''1,200'', Str ''350'']),
                             (''rating_score'', [Num (7 / 2), Num 3])]\<rparr>)"
    by code_simp
  note first = score_order_free_and_additive
      [where f = staff_table and cols = service_columns and cols' = service_columns
         and v = "Str ''Not good''"]
  note second = score_order_free_and_additive
      [where f = staff_table
         and cols = "[''Interaction with Reception Staff'', ''Interaction with Frontline Staff'']"
         and cols' = "[''Interaction with Frontline Staff'', ''Interaction with Reception Staff'']"
         and v = "Str ''Not good''"]
  have run: "clean_lass service_columns (Some staff_table) =
       Inr (Some \<lparr>nrows = 2,
                  columns = [(''Interaction with Reception Staff'', [Str ''Not good'', Str ''Unknown'']),
                             (''Interaction with Frontline Staff'', [Str ''yes'', Str ''Excellent'']),
                             (''LEP Population (Estimate)'', [Str ''1,200'', Str ''350'']),
                             (''rating_score'', [Num (7 / 2), Num 3])]\<rparr>)"
    using first wf rhs by (simp only: simp_thms)
  have swap: "clean_lass [''Interaction with Reception Staff'', ''Interaction with Frontline Staff''] (Some staff_table)
       = clean_lass [''Interaction with Frontline Staff'', ''Interaction with Reception Staff''] (Some staff_table)"
    using second wf perm by blast
  have zero: "shift (Str ''Not good'') = 0" using first pos neg by blast
  from wf run perm swap pos neg zero show ?thesis by (simp only: simp_thms)
qed

text \<open>
  C5. Cleaning a cleaned table changes nothing, for the LASS pipeline and for the LEP
  pipeline: running the function on its own result gives that result again (and a run
  that raised has no result to run on). For LEP the text \<open>Unknown\<close>, which the second
  pass writes over the missing numbers of the first, must not read as a number.
\<close>

theorem cleaning_idempotent:
  assumes "wf_frame f" and "parse ''Unknown'' = None"
  shows "bind (clean_lass_data (Some f)) clean_lass_data = clean_lass_data (Some f)
       \<and> bind (clean_lep_data parse (Some f)) (clean_lep_data parse) = clean_lep_data parse (Some f)"
proof
  have "lens_ok f" using assms(1) by (rule wf_frame_lens_ok)
  then have "bind (clean_lass service_columns (Some f)) (clean_lass service_columns)
               = clean_lass service_columns (Some f)"
    by (rule clean_lass_idem)
  then show "bind (clean_lass_data (Some f)) clean_lass_data = clean_lass_data (Some f)"
    by (simp add: clean_lass_data_def [abs_def])
  show "bind (clean_lep_data parse (Some f)) (clean_lep_data parse) = clean_lep_data parse (Some f)"
    using assms(2) by (rule clean_lep_idem)
qed

theorem cleaning_idempotent_witness:
  "wf_frame staff_table \<and> parse_digits ''Unknown'' = None
   \<and> clean_lass_data (Some staff_table) =
       Inr (Some \<lparr>nrows = 2,
                  columns = [(''Interaction with Reception Staff'', [Str ''Not good'', Str ''Unknown'']),
                             (''Interaction with Frontline Staff'', [Str ''yes'', Str ''Excellent'']),
                             (''LEP Population (Estimate)'', [Str ''1,200'', Str ''350'']),
                             (''rating_score'', [Num (7 / 2), Num 3])]\<rparr>)
   \<and> bind (clean_lass_data (Some staff_table)) clean_lass_data = clean_lass_data (Some staff_table)
   \<and> clean_lep_data parse_digits (Some staff_table) =
       Inr (Some \<lparr>nrows = 2,
                  columns = [(''Interaction with Reception Staff'', [Str ''Not good'', Str ''Unknown'']),
                             (''Interaction with Frontline Staff'', [Str ''yes'', Str ''Excellent'']),
                             (''LEP Population (Estimate)'', [NaN, Num 350])]\<rparr>)
   \<and> bind (clean_lep_data parse_digits (Some staff_table)) (clean_lep_data parse_digits)
       = clean_lep_data parse_digits (Some staff_table)"
proof -
  have wf: "wf_frame staff_table" by code_simp
  have p: "parse_digits ''Unknown'' = None" by code_simp
  have a: "clean_lass_data (Some staff_table) =
       Inr (Some \<lparr>nrows = 2,
                  columns = [(''Interaction with Reception Staff'', [Str ''Not good'', Str ''Unknown'']),
                             (''Interaction with Frontline Staff'', [Str ''yes'', Str ''Excellent'']),
                             (''LEP Population (Estimate)'', [Str ''1,200'', Str ''350'']),
                             (''rating_score'', [Num (7 / 2), Num 3])]\<rparr>)"
    by code_simp
  have b: "clean_lep_data parse_digits (Some staff_table) =
       Inr (Some \<lparr>nrows = 2,
                  columns = [(''Interaction with Reception Staff'', [Str ''Not good'', Str ''Unknown'']),
                             (''Interaction with Frontline Staff'', [Str ''yes'', Str ''Excellent'']),
                             (''LEP Population (Estimate)'', [NaN, Num 350])]\<rparr>)"
    by code_simp
  from cleaning_idempotent [of staff_table parse_digits, OF wf p] wf p a b show ?thesis
    by (simp only: simp_thms)
qed

text \<open>
  C1. A table whose column "Interaction with Security Guards" holds Yes, No and Unknown
  is claimed to score 3.5, 2.5 and 3.0. The code scores the third record 2.5: the search
  for the negative tokens ignores case and looks anywhere in the text, and "Unknown"
  holds "no" (Unk-no-wn), so the sentinel for a missing answer loses half a point like
  a "No" does. The same happens when the cell was missing and has just been filled.
\<close>

theorem unknown_scored_as_negative:
  "clean_lass_data (Some guards_table_filled) =
     Inr (Some \<lparr>nrows = 3,
                columns = [(''Interaction with Security Guards'', [Str ''Yes'', Str ''No'', Str ''Unknown'']),
                           (''rating_score'', [Num (7 / 2), Num (5 / 2), Num (5 / 2)])]\<rparr>)
   \<and> clean_lass_data (Some guards_table) = clean_lass_data (Some guards_table_filled)
   \<and> contains_cell negative (Str ''Unknown'')"
  by code_simp

text \<open>
  C10. Given no table (None), each cleaning function returns None and raises nothing.
\<close>

theorem clean_none:
  "clean_lass_data None = Inr None \<and> clean_lep_data parse None = Inr None"
  by (simp add: clean_lass_data_def clean_lass_def clean_lep_data_def)

section \<open>Properties of the sidebar filter\<close>

lemma select_map: "select m (map g xs) = map g (select m xs)"
  unfolding select_def by (induction xs arbitrary: m) (auto simp: zip_Cons1 split: list.splits)

lemma select_map_pred: "select (map P xs) xs = filter P xs"
  unfolding select_def by (induction xs) auto

lemma length_select: "length m = length xs \<Longrightarrow> length (select m xs) = length (filter id m)"
  unfolding select_def by (induction m xs rule: list_induct2) auto

lemma select_nth:
  assumes "length c = length m"
  shows "select m c = map ((!) c) (select m [0..<length m])"
proof -
  have "map ((!) c) [0..<length c] = c" by (rule map_nth)
  then have "c = map ((!) c) [0..<length m]" using assms by simp
  then have "select m c = select m (map ((!) c) [0..<length m])" by simp
  then show ?thesis by (simp only: select_map)
qed

lemma records_take_rows:
  assumes "lens_ok f" and "length m = nrows f"
  shows "records (take_rows m f) = select m (records f)"
proof -
  let ?idx = "select m [0..<length m]"
  have n: "length ?idx = length (filter id m)" by (simp add: length_select)
  have col: "select m c = map ((!) c) ?idx" if "(l, c) \<in> set (columns f)" for l c
  proof -
    from that assms have "length c = length m" by (auto simp: lens_ok_def)
    then show ?thesis by (rule select_nth)
  qed
  have "record_at (take_rows m f) j = record_at f (?idx ! j)" if "j < length ?idx" for j
    using that by (auto simp: record_at_def take_rows_def col)
  then have "map (record_at (take_rows m f)) [0..<length ?idx] = map (\<lambda>j. record_at f (?idx ! j)) [0..<length ?idx]"
    by simp
  also have "\<dots> = map (record_at f) (map ((!) ?idx) [0..<length ?idx])" by (simp add: comp_def)
  also have "\<dots> = map (record_at f) ?idx" by (simp only: map_nth)
  finally have "records (take_rows m f) = map (record_at f) ?idx"
    by (simp add: records_def take_rows_def n)
  also have "\<dots> = select m (records f)"
    using assms(2) by (simp add: records_def select_map)
  finally show ?thesis .
qed

lemma map_of_record_at:
  "map_of (record_at f i) col = map_option (\<lambda>c. c ! i) (getitem col f)"
  by (simp add: record_at_def getitem_def map_of_map)

lemma accepts_empty: "accepts col [] r"
  by (simp add: accepts_def split: option.splits)

lemma labels_take_rows: "labels (take_rows m f) = labels f"
  by (simp add: labels_def take_rows_def comp_def case_prod_beta)

lemma lens_ok_take_rows:
  assumes "lens_ok f" and "length m = nrows f"
  shows "lens_ok (take_rows m f)"
  using assms by (auto simp: lens_ok_def take_rows_def length_select)

lemma isin_accepts:
  assumes "lens_ok f" and "getitem col f = Some s" and "sel \<noteq> []"
  shows "isin sel s = map (accepts col sel) (records f)"
proof (rule nth_equalityI)
  have len: "length s = nrows f" using assms(1,2) by (rule lens_ok_getitem)
  then show "length (isin sel s) = length (map (accepts col sel) (records f))"
    by (simp add: isin_def records_def)
  fix i assume "i < length (isin sel s)"
  then have i: "i < nrows f" using len by (simp add: isin_def)
  then show "isin sel s ! i = map (accepts col sel) (records f) ! i"
    using len assms(2,3) by (simp add: isin_def records_def accepts_def map_of_record_at)
qed

lemma filter_isin_records:
  assumes "lens_ok f" and "sel \<noteq> [] \<longrightarrow> col \<in> set (labels f)"
  shows "\<exists>g. filter_isin col sel f = Inr g
            \<and> records g = filter (accepts col sel) (records f)
            \<and> labels g = labels f \<and> lens_ok g \<and> nrows g \<le> nrows f"
proof (cases "sel = []")
  case True
  then show ?thesis using assms(1) by (simp add: filter_isin_def accepts_empty)
next
  case False
  with assms(2) obtain s where s: "getitem col f = Some s"
    by (auto simp: in_labels_iff)
  let ?m = "isin sel s"
  have len: "length ?m = nrows f"
    using lens_ok_getitem [OF assms(1) s] by (simp add: isin_def)
  have m: "?m = map (accepts col sel) (records f)"
    using assms(1) s False by (rule isin_accepts)
  have "records (take_rows ?m f) = select ?m (records f)"
    using assms(1) len by (rule records_take_rows)
  also have "\<dots> = filter (accepts col sel) (records f)"
    by (simp only: m select_map_pred)
  finally have recs: "records (take_rows ?m f) = filter (accepts col sel) (records f)" .
  have "nrows (take_rows ?m f) \<le> length ?m" by (simp add: take_rows_def)
  then have le: "nrows (take_rows ?m f) \<le> nrows f" using len by simp
  have "filter_isin col sel f = Inr (take_rows ?m f)"
    using False s by (simp add: filter_isin_def lookup_def)
  with recs le show ?thesis
    using lens_ok_take_rows [OF assms(1) len] by (simp add: labels_take_rows)
qed

lemma filtered_lass_records:
  assumes "wf_frame f"
    and "selected_agencies \<noteq> [] \<longrightarrow> ''Agency'' \<in> set (labels f)"
    and "selected_boroughs \<noteq> [] \<longrightarrow> ''Borough'' \<in> set (labels f)"
    and "selected_languages \<noteq> [] \<longrightarrow> ''Secret Shopper Language'' \<in> set (labels f)"
  shows "\<exists>g. filtered_lass (Some f) selected_agencies selected_boroughs selected_languages = Inr g
           \<and> records g = filter (\<lambda>r. accepts ''Agency'' selected_agencies r
                                     \<and> accepts ''Borough'' selected_boroughs r
                                     \<and> accepts ''Secret Shopper Language'' selected_languages r)
                             (records f)
           \<and> labels g = labels f \<and> nrows g \<le> nrows f"
proof -
  have ok: "lens_ok f" using assms(1) by (rule wf_frame_lens_ok)
  from filter_isin_records [OF ok assms(2)]
  obtain f1 where f1: "filter_isin ''Agency'' selected_agencies f = Inr f1"
      "records f1 = filter (accepts ''Agency'' selected_agencies) (records f)"
      "labels f1 = labels f" "lens_ok f1" "nrows f1 \<le> nrows f"
    by blast
  have "selected_boroughs \<noteq> [] \<longrightarrow> ''Borough'' \<in> set (labels f1)"
    using assms(3) f1(3) by simp
  from filter_isin_records [OF f1(4) this]
  obtain f2 where f2: "filter_isin ''Borough'' selected_boroughs f1 = Inr f2"
      "records f2 = filter (accepts ''Borough'' selected_boroughs) (records f1)"
      "labels f2 = labels f1" "lens_ok f2" "nrows f2 \<le> nrows f1"
    by blast
  have "selected_languages \<noteq> [] \<longrightarrow> ''Secret Shopper Language'' \<in> set (labels f2)"
    using assms(4) f1(3) f2(3) by simp
  from filter_isin_records [OF f2(4) this]
  obtain f3 where f3: "filter_isin ''Secret Shopper Language'' selected_languages f2 = Inr f3"
      "records f3 = filter (accepts ''Secret Shopper Language'' selected_languages) (records f2)"
      "labels f3 = labels f2" "lens_ok f3" "nrows f3 \<le> nrows f2"
    by blast
  have run: "filtered_lass (Some f) selected_agencies selected_boroughs selected_languages = Inr f3"
    by (simp add: filtered_lass_def f1(1) f2(1) f3(1))
  have recs: "records f3 = filter (\<lambda>r. accepts ''Agency'' selected_agencies r
       \<and> accepts ''Borough'' selected_boroughs r
       \<and> accepts ''Secret Shopper Language'' selected_languages r) (records f)"
    by (simp add: f3(2) f2(2) f1(2) conj_commute conj_left_commute)
  have "labels f3 = labels f" "nrows f3 \<le> nrows f"
    using f1(3,5) f2(3,5) f3(3,5) by simp_all
  with run recs show ?thesis by blast
qed

text \<open>
  C2. The claim has an empty accepted set match no record. The code does the opposite:
  each step is guarded by \<^verbatim>\<open>if selected:\<close>, so an empty list imposes no restriction, like
  a column that is not filtered on. With all three lists empty the table comes back
  unchanged, and an empty list for one column leaves the filtering by the others as it is.
\<close>

theorem empty_selection_is_no_restriction:
  "filter_isin col [] f = Inr f
   \<and> filtered_lass (Some f) [] [] [] = Inr f
   \<and> filtered_lass (Some f) [] boroughs languages
       = bind (filter_isin ''Borough'' boroughs f) (filter_isin ''Secret Shopper Language'' languages)"
  by (simp add: filtered_lass_def filter_isin_def)

text \<open>
  The claim fails on a table with a Borough column and three records: with nothing
  selected, all three are kept.
\<close>

theorem empty_selection_keeps_every_record:
  "getitem ''Borough'' visits_table = Some [Str ''Queens'', Str ''Bronx'', Str ''Unknown'']
   \<and> filtered_lass (Some visits_table) [] [] [] = Inr visits_table
   \<and> nrows visits_table = 3"
  by code_simp

lemma filter_isin_KeyError:
  "selected \<noteq> [] \<Longrightarrow> col \<notin> set (labels f) \<Longrightarrow> filter_isin col selected f = Inl KeyError"
  by (simp add: filter_isin_def lookup_def in_labels_iff)

lemma filtered_lass_KeyError:
  assumes "wf_frame f"
    and "\<not> ((selected_agencies \<noteq> [] \<longrightarrow> ''Agency'' \<in> set (labels f))
           \<and> (selected_boroughs \<noteq> [] \<longrightarrow> ''Borough'' \<in> set (labels f))
           \<and> (selected_languages \<noteq> [] \<longrightarrow> ''Secret Shopper Language'' \<in> set (labels f)))"
  shows "filtered_lass (Some f) selected_agencies selected_boroughs selected_languages = Inl KeyError"
proof (cases "selected_agencies \<noteq> [] \<longrightarrow> ''Agency'' \<in> set (labels f)")
  case False
  then show ?thesis by (simp add: filtered_lass_def filter_isin_KeyError)
next
  case a: True
  have ok: "lens_ok f" using assms(1) by (rule wf_frame_lens_ok)
  from filter_isin_records [OF ok a]
  obtain f1 where f1: "filter_isin ''Agency'' selected_agencies f = Inr f1"
      "labels f1 = labels f" "lens_ok f1"
    by blast
  show ?thesis
  proof (cases "selected_boroughs \<noteq> [] \<longrightarrow> ''Borough'' \<in> set (labels f)")
    case False
    then show ?thesis by (simp add: filtered_lass_def f1(1) filter_isin_KeyError f1(2))
  next
    case b: True
    then have "selected_boroughs \<noteq> [] \<longrightarrow> ''Borough'' \<in> set (labels f1)" by (simp add: f1(2))
    from filter_isin_records [OF f1(3) this]
    obtain f2 where f2: "filter_isin ''Borough'' selected_boroughs f1 = Inr f2"
        "labels f2 = labels f1"
      by blast
    from assms(2) a b have "selected_languages \<noteq> []"
        "''Secret Shopper Language'' \<notin> set (labels f2)"
      by (auto simp: f1(2) f2(2))
    then show ?thesis
      by (simp add: filtered_lass_def f1(1) f2(1) filter_isin_KeyError)
  qed
qed

text \<open>
  C6, amended by the same guard. The three accepted lists come from the sidebar, which
  gives the empty list for a column the table lacks. For such lists the filtered table
  holds exactly the records that pass each of the three columns' lists, where an empty
  list lets every record pass; the records keep their order, the table gets no longer
  and keeps its columns, and with nothing selected it comes back unchanged. For any
  other lists, those with values for a column the table lacks, the block does not skip
  the column: reading it raises KeyError.
\<close>

theorem filtered_lass_keeps_accepted_records:
  assumes "wf_frame f"
  shows "((selected_agencies \<noteq> [] \<longrightarrow> ''Agency'' \<in> set (labels f))
          \<and> (selected_boroughs \<noteq> [] \<longrightarrow> ''Borough'' \<in> set (labels f))
          \<and> (selected_languages \<noteq> [] \<longrightarrow> ''Secret Shopper Language'' \<in> set (labels f))
          \<longrightarrow> (\<exists>g. filtered_lass (Some f) selected_agencies selected_boroughs selected_languages = Inr g
                \<and> records g = filter (\<lambda>r. accepts ''Agency'' selected_agencies r
                                          \<and> accepts ''Borough'' selected_boroughs r
                                          \<and> accepts ''Secret Shopper Language'' selected_languages r)
                                  (records f)
                \<and> labels g = labels f \<and> nrows g \<le> nrows f))
       \<and> (\<not> ((selected_agencies \<noteq> [] \<longrightarrow> ''Agency'' \<in> set (labels f))
              \<and> (selected_boroughs \<noteq> [] \<longrightarrow> ''Borough'' \<in> set (labels f))
              \<and> (selected_languages \<noteq> [] \<longrightarrow> ''Secret Shopper Language'' \<in> set (labels f)))
          \<longrightarrow> filtered_lass (Some f) selected_agencies selected_boroughs selected_languages
                = Inl KeyError)
       \<and> filtered_lass (Some f) [] [] [] = Inr f"
proof (intro conjI impI)
  assume "(selected_agencies \<noteq> [] \<longrightarrow> ''Agency'' \<in> set (labels f))
          \<and> (selected_boroughs \<noteq> [] \<longrightarrow> ''Borough'' \<in> set (labels f))
          \<and> (selected_languages \<noteq> [] \<longrightarrow> ''Secret Shopper Language'' \<in> set (labels f))"
  then show "\<exists>g. filtered_lass (Some f) selected_agencies selected_boroughs selected_languages = Inr g
                \<and> records g = filter (\<lambda>r. accepts ''Agency'' selected_agencies r
                                          \<and> accepts ''Borough'' selected_boroughs r
                                          \<and> accepts ''Secret Shopper Language'' selected_languages r)
                                  (records f)
                \<and> labels g = labels f \<and> nrows g \<le> nrows f"
    using filtered_lass_records [OF assms] by blast
next
  assume "\<not> ((selected_agencies \<noteq> [] \<longrightarrow> ''Agency'' \<in> set (labels f))
              \<and> (selected_boroughs \<noteq> [] \<longrightarrow> ''Borough'' \<in> set (labels f))
              \<and> (selected_languages \<noteq> [] \<longrightarrow> ''Secret Shopper Language'' \<in> set (labels f)))"
  with assms show "filtered_lass (Some f) selected_agencies selected_boroughs selected_languages
                = Inl KeyError"
    by (rule filtered_lass_KeyError)
next
  show "filtered_lass (Some f) [] [] [] = Inr f"
    by (simp add: filtered_lass_def filter_isin_def)
qed

theorem filtered_lass_keeps_accepted_records_witness:
  "wf_frame visits_table
   \<and> ''Agency'' \<in> set (labels visits_table) \<and> ''Borough'' \<in> set (labels visits_table)
   \<and> ''Secret Shopper Language'' \<notin> set (labels visits_table)
   \<and> filtered_lass (Some visits_table) [Str ''DOHMH''] [Str ''Queens'', Str ''Bronx''] [] =
       Inr \<lparr>nrows = 1, columns = [(''Agency'', [Str ''DOHMH'']), (''Borough'', [Str ''Queens''])]\<rparr>
   \<and> records \<lparr>nrows = 1, columns = [(''Agency'', [Str ''DOHMH'']), (''Borough'', [Str ''Queens''])]\<rparr>
       = filter (\<lambda>r. accepts ''Agency'' [Str ''DOHMH''] r
                    \<and> accepts ''Borough'' [Str ''Queens'', Str ''Bronx''] r
                    \<and> accepts ''Secret Shopper Language'' [] r) (records visits_table)
   \<and> records \<lparr>nrows = 1, columns = [(''Agency'', [Str ''DOHMH'']), (''Borough'', [Str ''Queens''])]\<rparr>
       = [[(''Agency'', Str ''DOHMH''), (''Borough'', Str ''Queens'')]]
   \<and> filtered_lass (Some visits_table) [] [] [Str ''Spanish''] = Inl KeyError
   \<and> filtered_lass (Some visits_table) [] [] [] = Inr visits_table"
proof -
  have wf: "wf_frame visits_table" by code_simp
  have a: "''Agency'' \<in> set (labels visits_table)" by code_simp
  have b: "''Borough'' \<in> set (labels visits_table)" by code_simp
  have c: "''Secret Shopper Language'' \<notin> set (labels visits_table)" by code_simp
  have run: "filtered_lass (Some visits_table) [Str ''DOHMH''] [Str ''Queens'', Str ''Bronx''] [] =
       Inr \<lparr>nrows = 1, columns = [(''Agency'', [Str ''DOHMH'']), (''Borough'', [Str ''Queens''])]\<rparr>"
    by code_simp
  have recs: "records \<lparr>nrows = 1, columns = [(''Agency'', [Str ''DOHMH'']), (''Borough'', [Str ''Queens''])]\<rparr>
       = [[(''Agency'', Str ''DOHMH''), (''Borough'', Str ''Queens'')]]"
    by code_simp
  from filtered_lass_keeps_accepted_records
         [OF wf, where selected_agencies = "[Str ''DOHMH'']"
            and selected_boroughs = "[Str ''Queens'', Str ''Bronx'']"
            and selected_languages = "[]"] a b
  have 1: "records \<lparr>nrows = 1, columns = [(''Agency'', [Str ''DOHMH'']), (''Borough'', [Str ''Queens''])]\<rparr>
       = filter (\<lambda>r. accepts ''Agency'' [Str ''DOHMH''] r
                    \<and> accepts ''Borough'' [Str ''Queens'', Str ''Bronx''] r
                    \<and> accepts ''Secret Shopper Language'' [] r) (records visits_table)"
    and 2: "filtered_lass (Some visits_table) [] [] [] = Inr visits_table"
    unfolding run by auto
  from filtered_lass_keeps_accepted_records
         [OF wf, where selected_agencies = "[]" and selected_boroughs = "[]"
            and selected_languages = "[Str ''Spanish'']"] c
  have 3: "filtered_lass (Some visits_table) [] [] [Str ''Spanish''] = Inl KeyError"
    by simp
  from wf a b c run recs 1 2 3 show ?thesis by (simp only: simp_thms)
qed

text \<open>
  As stated the claim fails where a column of the table has an empty accepted list: no
  borough belongs to the empty list, and yet the two records of the selected agency are
  in the result.
\<close>

theorem empty_list_does_not_filter:
  "filtered_lass (Some visits_table) [Str ''DOHMH''] [] [] =
     Inr \<lparr>nrows = 2,
          columns = [(''Agency'', [Str ''DOHMH'', Str ''DOHMH'']),
                     (''Borough'', [Str ''Queens'', Str ''Unknown''])]\<rparr>"
  by code_simp

section \<open>Properties of the grouped aggregates\<close>

lemma set_group_keys: "set (group_keys ks) = {k \<in> set ks. notna k}"
  by (simp add: group_keys_def)

lemma distinct_group_keys: "distinct (group_keys ks)"
  by (simp add: group_keys_def)

lemma map_of_graph: "k \<in> set xs \<Longrightarrow> map_of (map (\<lambda>k. (k, g k)) xs) k = Some (g k)"
  by (induction xs) auto

lemma nums_filter: "nums (filter is_Num s) = nums s"
  by (induction s) (auto simp: nums_def is_Num_def split: cell.splits)

lemma nums_map_Num: "nums (map Num xs) = xs"
  by (induction xs) (simp_all add: nums_def)

lemma nums_Nil_iff: "nums s = [] \<longleftrightarrow> filter is_Num s = []"
  by (induction s) (auto simp: nums_def is_Num_def split: cell.splits)

lemma group_values_eq:
  "group_values k ks vs = map snd (filter (\<lambda>p. fst p = k) (zip ks vs))"
  unfolding group_values_def select_def
proof (induction ks arbitrary: vs)
  case Nil
  then show ?case by simp
next
  case (Cons a ks)
  then show ?case by (cases vs) auto
qed

lemma sort_values_desc_props:
  "set (sort_values_desc r) = set r" "length (sort_values_desc r) = length r"
  "distinct (map fst r) \<Longrightarrow> distinct (map fst (sort_values_desc r))"
proof -
  show "set (sort_values_desc r) = set r" "length (sort_values_desc r) = length r"
    by (simp_all add: sort_values_desc_def)
  assume d: "distinct (map fst r)"
  have "mset (map fst (sort_values_desc r)) = mset (map fst r)"
    by (simp add: sort_values_desc_def)
  then show "distinct (map fst (sort_values_desc r))"
    using d by (metis mset_eq_imp_distinct_iff)
qed

lemma map_of_sort_values_desc:
  assumes "distinct (map fst r)"
  shows "map_of (sort_values_desc r) = map_of r"
  using assms sort_values_desc_props [of r]
  by (subst map_of_inject_set) simp_all

text \<open>
  C8, amended. Every key that is not missing has one entry in the grouped sum and one in
  the grouped mean. The missing cells of the metric do not count: a group's sum and mean
  are those the machine computes for the numbers of the group, in their order. A group
  without numbers has the sum 0 and, as its mean, the missing-numeric marker; it is not
  left out. The ten first means by descending value, which is what the chart of average
  durations shows, still hold every group when there are at most ten.
\<close>

theorem grouped_sum_and_mean:
  assumes "wf_frame f" and "getitem key f = Some ks" and "getitem metric f = Some vs"
    and "numeric vs" and "k \<in> set ks" and "notna k" and "machine_sum [] = Num 0"
  shows "\<exists>rs rm. groupby_agg (agg_sum machine_sum) key metric f = Inr rs
           \<and> groupby_agg (agg_mean machine_mean) key metric f = Inr rm
           \<and> distinct (map fst rs) \<and> set (map fst rs) = {k \<in> set ks. notna k}
           \<and> distinct (map fst rm) \<and> set (map fst rm) = {k \<in> set ks. notna k}
           \<and> (filter is_Num (map snd (filter (\<lambda>p. fst p = k) (zip ks vs))) = [] \<longrightarrow>
                map_of rs k = Some (Num 0) \<and> map_of rm k = Some NaN)
           \<and> (\<forall>xs. filter is_Num (map snd (filter (\<lambda>p. fst p = k) (zip ks vs))) = map Num xs
                     \<and> xs \<noteq> [] \<longrightarrow>
                map_of rs k = Some (machine_sum xs) \<and> map_of rm k = Some (machine_mean xs))
           \<and> (key = ''Language'' \<and> metric = ''Billable time (numeric)'' \<and> length rm \<le> 10 \<longrightarrow>
                (\<exists>r. avg_time_by_lang machine_mean f = Inr r \<and> length r = length rm
                      \<and> map_of r k = map_of rm k))"
proof -
  let ?G = "map snd (filter (\<lambda>p. fst p = k) (zip ks vs))"
  have G: "group_values k ks vs = ?G" by (rule group_values_eq)
  have k: "k \<in> set (group_keys ks)" using assms(5,6) by (simp add: set_group_keys)
  let ?rs = "map (\<lambda>k. (k, agg_sum machine_sum (group_values k ks vs))) (group_keys ks)"
  let ?rm = "map (\<lambda>k. (k, agg_mean machine_mean (group_values k ks vs))) (group_keys ks)"
  have rs: "groupby_agg (agg_sum machine_sum) key metric f = Inr ?rs"
    and rm: "groupby_agg (agg_mean machine_mean) key metric f = Inr ?rm"
    using assms(2,3) by (simp_all add: groupby_agg_def lookup_def)
  have fs: "map fst ?rs = group_keys ks" and fm: "map fst ?rm = group_keys ks"
    by (simp_all add: comp_def)
  have ms: "map_of ?rs k = Some (agg_sum machine_sum ?G)"
    using map_of_graph [OF k, of "\<lambda>k. agg_sum machine_sum (group_values k ks vs)"] by (simp only: G)
  have mm: "map_of ?rm k = Some (agg_mean machine_mean ?G)"
    using map_of_graph [OF k, of "\<lambda>k. agg_mean machine_mean (group_values k ks vs)"] by (simp only: G)
  have z: "filter is_Num ?G = [] \<longrightarrow> map_of ?rs k = Some (Num 0) \<and> map_of ?rm k = Some NaN"
    using assms(7) by (simp only: ms mm) (simp add: agg_sum_def agg_mean_def nums_Nil_iff [symmetric])
  have v: "\<forall>xs. filter is_Num ?G = map Num xs \<and> xs \<noteq> [] \<longrightarrow>
             map_of ?rs k = Some (machine_sum xs) \<and> map_of ?rm k = Some (machine_mean xs)"
  proof (intro allI impI)
    fix xs assume a: "filter is_Num ?G = map Num xs \<and> xs \<noteq> []"
    then have "nums ?G = xs" by (metis nums_filter nums_map_Num)
    with a show "map_of ?rs k = Some (machine_sum xs) \<and> map_of ?rm k = Some (machine_mean xs)"
      by (simp only: ms mm) (simp add: agg_sum_def agg_mean_def)
  qed
  have top: "key = ''Language'' \<and> metric = ''Billable time (numeric)'' \<and> length ?rm \<le> 10 \<longrightarrow>
                (\<exists>r. avg_time_by_lang machine_mean f = Inr r \<and> length r = length ?rm
                      \<and> map_of r k = map_of ?rm k)"
  proof (intro impI)
    assume a: "key = ''Language'' \<and> metric = ''Billable time (numeric)'' \<and> length ?rm \<le> 10"
    have d: "distinct (map fst ?rm)" by (simp only: fm distinct_group_keys)
    have "avg_time_by_lang machine_mean f = Inr (take 10 (sort_values_desc ?rm))"
      using a rm by (simp add: avg_time_by_lang_def)
    moreover have "take 10 (sort_values_desc ?rm) = sort_values_desc ?rm"
      using a by (simp add: sort_values_desc_props(2))
    ultimately have "avg_time_by_lang machine_mean f = Inr (sort_values_desc ?rm)" by simp
    moreover have "length (sort_values_desc ?rm) = length ?rm" by (rule sort_values_desc_props(2))
    moreover have "map_of (sort_values_desc ?rm) k = map_of ?rm k"
      using d by (simp only: map_of_sort_values_desc)
    ultimately show "\<exists>r. avg_time_by_lang machine_mean f = Inr r \<and> length r = length ?rm
                      \<and> map_of r k = map_of ?rm k"
      by blast
  qed
  have ds: "distinct (map fst ?rs)" "set (map fst ?rs) = {k \<in> set ks. notna k}"
    and dm: "distinct (map fst ?rm)" "set (map fst ?rm) = {k \<in> set ks. notna k}"
    by (simp_all only: fs fm distinct_group_keys set_group_keys)
  show ?thesis
    apply (rule exI [of _ ?rs])
    apply (rule exI [of _ ?rm])
    using rs rm ds dm z v top apply (intro conjI)
    apply assumption+
    done
qed

theorem grouped_sum_and_mean_witness:
  "wf_frame billing_table
   \<and> getitem ''Language'' billing_table = Some [Str ''Spanish'', Str ''Arabic'', Str ''Spanish'', NaN, Str ''Spanish'']
   \<and> getitem ''Billable time (numeric)'' billing_table = Some [Num 10, NaN, NaN, Num 7, Num 20]
   \<and> numeric [Num 10, NaN, NaN, Num 7, Num 20]
   \<and> notna (Str ''Spanish'') \<and> notna (Str ''Arabic'') \<and> exact_total [] = Num 0
   \<and> groupby_agg (agg_sum exact_total) ''Language'' ''Billable time (numeric)'' billing_table
       = Inr [(Str ''Arabic'', Num 0), (Str ''Spanish'', Num 30)]
   \<and> groupby_agg (agg_mean exact_average) ''Language'' ''Billable time (numeric)'' billing_table
       = Inr [(Str ''Arabic'', NaN), (Str ''Spanish'', Num 15)]
   \<and> filter is_Num (map snd (filter (\<lambda>p. fst p = Str ''Spanish'')
         (zip [Str ''Spanish'', Str ''Arabic'', Str ''Spanish'', NaN, Str ''Spanish'']
              [Num 10, NaN, NaN, Num 7, Num 20]))) = map Num [10, 20]
   \<and> map_of [(Str ''Arabic'', NaN), (Str ''Spanish'', Num 15)] (Str ''Spanish'')
       = Some (exact_average [10, 20])
   \<and> filter is_Num (map snd (filter (\<lambda>p. fst p = Str ''Arabic'')
         (zip [Str ''Spanish'', Str ''Arabic'', Str ''Spanish'', NaN, Str ''Spanish'']
              [Num 10, NaN, NaN, Num 7, Num 20]))) = []
   \<and> map_of [(Str ''Arabic'', Num 0), (Str ''Spanish'', Num 30)] (Str ''Arabic'') = Some (Num 0)
   \<and> map_of [(Str ''Arabic'', NaN), (Str ''Spanish'', Num 15)] (Str ''Arabic'') = Some NaN
   \<and> avg_time_by_lang exact_average billing_table
       = Inr [(Str ''Spanish'', Num 15), (Str ''Arabic'', NaN)]
   \<and> map_of [(Str ''Spanish'', Num 15), (Str ''Arabic'', NaN)] (Str ''Arabic'')
       = map_of [(Str ''Arabic'', NaN), (Str ''Spanish'', Num 15)] (Str ''Arabic'')"
proof -
  let ?ks = "[Str ''Spanish'', Str ''Arabic'', Str ''Spanish'', NaN, Str ''Spanish'']"
  let ?vs = "[Num 10, NaN, NaN, Num 7, Num 20]"
  have wf: "wf_frame billing_table" by code_simp
  have ks: "getitem ''Language'' billing_table = Some ?ks" by code_simp
  have vs: "getitem ''Billable time (numeric)'' billing_table = Some ?vs" by code_simp
  have nv: "numeric ?vs" by code_simp
  have k: "Str ''Spanish'' \<in> set ?ks" by simp
  have nk: "notna (Str ''Spanish'')" by (simp add: notna_def)
  have ka: "Str ''Arabic'' \<in> set ?ks" by simp
  have nka: "notna (Str ''Arabic'')" by (simp add: notna_def)
  have z: "exact_total [] = Num 0" by (simp add: exact_total_def)
  have g: "filter is_Num (map snd (filter (\<lambda>p. fst p = Str ''Spanish'') (zip ?ks ?vs)))
             = map Num [10, 20]"
    by code_simp
  have ga: "filter is_Num (map snd (filter (\<lambda>p. fst p = Str ''Arabic'') (zip ?ks ?vs))) = []"
    by code_simp
  have rs: "groupby_agg (agg_sum exact_total) ''Language'' ''Billable time (numeric)'' billing_table
       = Inr [(Str ''Arabic'', Num 0), (Str ''Spanish'', Num 30)]" by code_simp
  have rm: "groupby_agg (agg_mean exact_average) ''Language'' ''Billable time (numeric)'' billing_table
       = Inr [(Str ''Arabic'', NaN), (Str ''Spanish'', Num 15)]" by code_simp
  have top: "avg_time_by_lang exact_average billing_table
       = Inr [(Str ''Spanish'', Num 15), (Str ''Arabic'', NaN)]" by code_simp
  have ne: "[10, 20 :: rat] \<noteq> []" by simp
  from grouped_sum_and_mean [where machine_sum = exact_total and machine_mean = exact_average,
      OF wf ks vs nv k nk z] g ne
  have m1: "map_of [(Str ''Arabic'', NaN), (Str ''Spanish'', Num 15)] (Str ''Spanish'')
              = Some (exact_average [10, 20])"
    unfolding rs rm by auto
  from grouped_sum_and_mean [where machine_sum = exact_total and machine_mean = exact_average,
      OF wf ks vs nv ka nka z] ga
  have m3: "map_of [(Str ''Arabic'', Num 0), (Str ''Spanish'', Num 30)] (Str ''Arabic'') = Some (Num 0)"
    and m4: "map_of [(Str ''Arabic'', NaN), (Str ''Spanish'', Num 15)] (Str ''Arabic'') = Some NaN"
    and m5: "map_of [(Str ''Spanish'', Num 15), (Str ''Arabic'', NaN)] (Str ''Arabic'')
               = map_of [(Str ''Arabic'', NaN), (Str ''Spanish'', Num 15)] (Str ''Arabic'')"
    unfolding rs rm top by auto
  from wf ks vs nv nk nka z rs rm g ga top m1 m3 m4 m5 show ?thesis by (simp only: simp_thms)
qed

text \<open>
  The claim has a group without values excluded from the means. In the code it stays,
  with the missing marker, in the grouped means and in the ten that are shown.
\<close>

theorem missing_group_is_reported:
  "avg_time_by_lang exact_average billing_table = Inr [(Str ''Spanish'', Num 15), (Str ''Arabic'', NaN)]
   \<and> groupby_agg (agg_mean exact_average) ''Language'' ''Billable time (numeric)'' billing_table
       = Inr [(Str ''Arabic'', NaN), (Str ''Spanish'', Num 15)]"
  by code_simp

section \<open>Properties of the loaders\<close>

lemma read_sheets_fail:
  "s \<in> set names \<Longrightarrow> rd filename (Sheet_name s) = Inl e
     \<Longrightarrow> \<exists>e'. read_sheets rd filename names = Inl e'"
  by (induction names) (auto split: sum.splits)

lemma read_sheets_ok:
  "\<forall>s \<in> set names. \<exists>df. rd filename (Sheet_name s) = Inr df
     \<Longrightarrow> read_sheets rd filename names
           = Inr (map (\<lambda>s. (s, projr (rd filename (Sheet_name s)))) names)"
  by (induction names) auto

lemma load_file_sheet_fails:
  assumes "sheet_names fs filename = Inr names" and "s \<in> set names"
    and "read_excel fs filename (Sheet_name s) = Inl e"
  shows "load_file fs ''historical'' filename = Absent"
proof -
  from read_sheets_fail [where rd = "read_excel fs", OF assms(2,3)]
  obtain e' where "read_sheets (read_excel fs) filename names = Inl e'" by blast
  with assms(1) show ?thesis by (simp add: load_file_def)
qed

lemma load_file_sheets_ok:
  assumes "path_exists fs filename" and "sheet_names fs filename = Inr names"
    and "\<forall>s \<in> set names. \<exists>df. read_excel fs filename (Sheet_name s) = Inr df"
  shows "load_file fs ''historical'' filename
           = Sheets (map (\<lambda>s. (s, projr (read_excel fs filename (Sheet_name s)))) names)"
  using assms(1,2) read_sheets_ok [where rd = "read_excel fs", OF assms(3)]
  by (simp add: load_file_def)

text \<open>
  C4, amended: a remote load gives the table and no error, or no table and the message
  "Error loading ... data: " followed by the cause, never neither; nothing is raised. The
  local loader raises nothing either and always returns its three keys, each with what
  loading its file gave: the first sheet, or every sheet of the historical file by name,
  when the file is there and all of it reads; and None when the file is not there, when
  it cannot be opened, or when any sheet of it fails to read, also after others were
  read. No cause is carried.
\<close>

theorem loaders_results:
  "(case read_csv lass_url of
      Inl e \<Rightarrow> load_lass_data read_csv = (None, Some (''Error loading LASS data: '' @ e))
    | Inr df \<Rightarrow> load_lass_data read_csv = (Some df, None))
   \<and> (case read_csv lep_url of
      Inl e \<Rightarrow> load_lep_data read_csv = (None, Some (''Error loading LEP data: '' @ e))
    | Inr df \<Rightarrow> load_lep_data read_csv = (Some df, None))
   \<and> load_lass_data read_csv \<noteq> (None, None) \<and> load_lep_data read_csv \<noteq> (None, None)
   \<and> load_local_excel_files fs =
        [(''historical'', load_file fs ''historical'' ''AllDataAnalysis_20250908_194306.xlsx''),
         (''linguists'', load_file fs ''linguists'' ''SOSiApprovedLinguists (1).xlsx''),
         (''staging'', load_file fs ''staging'' ''tblStaging_Raw.xlsx'')]
   \<and> (\<not> path_exists fs filename \<longrightarrow> load_file fs key filename = Absent)
   \<and> (key \<noteq> ''historical'' \<and> read_excel fs filename (Sheet_index 0) = Inl e
        \<longrightarrow> load_file fs key filename = Absent)
   \<and> (sheet_names fs filename = Inl e \<longrightarrow> load_file fs ''historical'' filename = Absent)
   \<and> (sheet_names fs filename = Inr names \<and> s \<in> set names
        \<and> read_excel fs filename (Sheet_name s) = Inl e
        \<longrightarrow> load_file fs ''historical'' filename = Absent)
   \<and> (path_exists fs filename \<and> key \<noteq> ''historical''
        \<and> read_excel fs filename (Sheet_index 0) = Inr df
        \<longrightarrow> load_file fs key filename = Table df)
   \<and> (path_exists fs filename \<and> sheet_names fs filename = Inr names
        \<and> (\<forall>s \<in> set names. \<exists>df. read_excel fs filename (Sheet_name s) = Inr df)
        \<longrightarrow> load_file fs ''historical'' filename
              = Sheets (map (\<lambda>s. (s, projr (read_excel fs filename (Sheet_name s)))) names))"
proof -
  have a: "sheet_names fs filename = Inr names \<and> s \<in> set names
        \<and> read_excel fs filename (Sheet_name s) = Inl e
        \<longrightarrow> load_file fs ''historical'' filename = Absent"
    by (blast intro: load_file_sheet_fails)
  have b: "path_exists fs filename \<and> sheet_names fs filename = Inr names
        \<and> (\<forall>s \<in> set names. \<exists>df. read_excel fs filename (Sheet_name s) = Inr df)
        \<longrightarrow> load_file fs ''historical'' filename
              = Sheets (map (\<lambda>s. (s, projr (read_excel fs filename (Sheet_name s)))) names)"
    by (blast intro: load_file_sheets_ok)
  have c: "(case read_csv lass_url of
      Inl e \<Rightarrow> load_lass_data read_csv = (None, Some (''Error loading LASS data: '' @ e))
    | Inr df \<Rightarrow> load_lass_data read_csv = (Some df, None))
   \<and> (case read_csv lep_url of
      Inl e \<Rightarrow> load_lep_data read_csv = (None, Some (''Error loading LEP data: '' @ e))
    | Inr df \<Rightarrow> load_lep_data read_csv = (Some df, None))
   \<and> load_lass_data read_csv \<noteq> (None, None) \<and> load_lep_data read_csv \<noteq> (None, None)
   \<and> load_local_excel_files fs =
        [(''historical'', load_file fs ''historical'' ''AllDataAnalysis_20250908_194306.xlsx''),
         (''linguists'', load_file fs ''linguists'' ''SOSiApprovedLinguists (1).xlsx''),
         (''staging'', load_file fs ''staging'' ''tblStaging_Raw.xlsx'')]
   \<and> (\<not> path_exists fs filename \<longrightarrow> load_file fs key filename = Absent)
   \<and> (key \<noteq> ''historical'' \<and> read_excel fs filename (Sheet_index 0) = Inl e
        \<longrightarrow> load_file fs key filename = Absent)
   \<and> (sheet_names fs filename = Inl e \<longrightarrow> load_file fs ''historical'' filename = Absent)
   \<and> (path_exists fs filename \<and> key \<noteq> ''historical''
        \<and> read_excel fs filename (Sheet_index 0) = Inr df
        \<longrightarrow> load_file fs key filename = Table df)"
    by (simp add: load_lass_data_def load_lep_data_def load_local_excel_files_def excel_files_def
                  load_file_def split: sum.splits)
  from a b c show ?thesis by blast
qed

theorem loaders_results_witness:
  "load_lass_data no_network
     = (None, Some ''Error loading LASS data: <urlopen error [Errno -2] Name or service not known>'')
   \<and> load_lass_data (\<lambda>url. Inr guards_table) = (Some guards_table, None)
   \<and> \<not> path_exists missing_files ''tblStaging_Raw.xlsx''
   \<and> load_file missing_files ''staging'' ''tblStaging_Raw.xlsx'' = Absent
   \<and> ''staging'' \<noteq> ''historical''
   \<and> read_excel corrupt_files ''tblStaging_Raw.xlsx'' (Sheet_index 0) = Inl ''File is not a zip file''
   \<and> load_file corrupt_files ''staging'' ''tblStaging_Raw.xlsx'' = Absent
   \<and> sheet_names corrupt_files ''AllDataAnalysis_20250908_194306.xlsx'' = Inl ''File is not a zip file''
   \<and> load_file corrupt_files ''historical'' ''AllDataAnalysis_20250908_194306.xlsx'' = Absent
   \<and> sheet_names half_read_files ''AllDataAnalysis_20250908_194306.xlsx''
        = Inr [''All Historical Data'', ''Summary'']
   \<and> read_excel half_read_files ''AllDataAnalysis_20250908_194306.xlsx'' (Sheet_name ''All Historical Data'')
        = Inr hearings_table
   \<and> read_excel half_read_files ''AllDataAnalysis_20250908_194306.xlsx'' (Sheet_name ''Summary'')
        = Inl ''Worksheet cannot be parsed''
   \<and> load_file half_read_files ''historical'' ''AllDataAnalysis_20250908_194306.xlsx'' = Absent
   \<and> path_exists readable_files ''tblStaging_Raw.xlsx''
   \<and> load_file readable_files ''staging'' ''tblStaging_Raw.xlsx'' = Table hearings_table
   \<and> load_file readable_files ''historical'' ''AllDataAnalysis_20250908_194306.xlsx''
        = Sheets [(''All Historical Data'', hearings_table)]
   \<and> load_local_excel_files readable_files
        = [(''historical'', Sheets [(''All Historical Data'', hearings_table)]),
           (''linguists'', Table hearings_table),
           (''staging'', Table hearings_table)]"
proof -
  let ?hist = "''AllDataAnalysis_20250908_194306.xlsx''"
  let ?stag = "''tblStaging_Raw.xlsx''"
  have a: "no_network lass_url = Inl ''<urlopen error [Errno -2] Name or service not known>''"
    by (simp add: no_network_def)
  have b: "\<not> path_exists missing_files ?stag" by (simp add: missing_files_def)
  have c: "read_excel corrupt_files ?stag (Sheet_index 0) = Inl ''File is not a zip file''"
    by (simp add: corrupt_files_def)
  have d: "sheet_names corrupt_files ?hist = Inl ''File is not a zip file''"
    by (simp add: corrupt_files_def)
  have ne: "''staging'' \<noteq> ''historical''" by simp
  have h1: "sheet_names half_read_files ?hist = Inr [''All Historical Data'', ''Summary'']"
    by (simp add: half_read_files_def)
  have h2: "read_excel half_read_files ?hist (Sheet_name ''All Historical Data'') = Inr hearings_table"
    by (simp add: half_read_files_def)
  have h3: "read_excel half_read_files ?hist (Sheet_name ''Summary'') = Inl ''Worksheet cannot be parsed''"
    by (simp add: half_read_files_def)
  have h4: "''Summary'' \<in> set [''All Historical Data'', ''Summary'']" by simp
  have r1: "path_exists readable_files ?stag" "path_exists readable_files ?hist"
    by (simp_all add: readable_files_def)
  have r2: "read_excel readable_files ?stag (Sheet_index 0) = Inr hearings_table"
    by (simp add: readable_files_def)
  have r3: "sheet_names readable_files ?hist = Inr [''All Historical Data'']"
    by (simp add: readable_files_def)
  have r4: "\<forall>s \<in> set [''All Historical Data''].
              \<exists>df. read_excel readable_files ?hist (Sheet_name s) = Inr df"
    by (simp add: readable_files_def)
  have r5: "projr (read_excel readable_files ?hist (Sheet_name ''All Historical Data'')) = hearings_table"
    by (simp add: readable_files_def)
  from loaders_results [where read_csv = no_network and fs = missing_files and filename = ?stag
                          and key = "''staging''"] a b
  have 1: "load_lass_data no_network
     = (None, Some ''Error loading LASS data: <urlopen error [Errno -2] Name or service not known>'')"
    and 2: "load_file missing_files ''staging'' ?stag = Absent"
    by simp_all
  from loaders_results [where read_csv = "\<lambda>url. Inr guards_table" and fs = corrupt_files
                          and filename = ?stag and key = "''staging''"
                          and e = "''File is not a zip file''"] c ne
  have 3: "load_lass_data (\<lambda>url. Inr guards_table) = (Some guards_table, None)"
    and 4: "load_file corrupt_files ''staging'' ?stag = Absent"
    by simp_all
  from loaders_results [where fs = corrupt_files and filename = ?hist
                          and e = "''File is not a zip file''"] d
  have 5: "load_file corrupt_files ''historical'' ?hist = Absent"
    by simp
  from loaders_results [where fs = half_read_files and filename = ?hist
                          and names = "[''All Historical Data'', ''Summary'']" and s = "''Summary''"
                          and e = "''Worksheet cannot be parsed''"] h1 h3 h4
  have 6: "load_file half_read_files ''historical'' ?hist = Absent"
    by blast
  from loaders_results [where fs = readable_files and filename = ?stag and key = "''staging''"
                          and df = hearings_table] r1 r2 ne
  have 7: "load_file readable_files ''staging'' ?stag = Table hearings_table"
    by blast
  from loaders_results [where fs = readable_files and filename = ?hist
                          and names = "[''All Historical Data'']"] r1 r3 r4
  have "load_file readable_files ''historical'' ?hist
          = Sheets (map (\<lambda>s. (s, projr (read_excel readable_files ?hist (Sheet_name s))))
                        [''All Historical Data''])"
    by blast
  then have 8: "load_file readable_files ''historical'' ?hist
                  = Sheets [(''All Historical Data'', hearings_table)]"
    by (simp add: r5)
  have 9: "load_local_excel_files readable_files
        = [(''historical'', Sheets [(''All Historical Data'', hearings_table)]),
           (''linguists'', Table hearings_table),
           (''staging'', Table hearings_table)]"
    by (simp add: load_local_excel_files_def excel_files_def load_file_def readable_files_def)
  from 1 2 3 4 5 6 7 8 9 b c d ne h1 h2 h3 r1 show ?thesis by (simp only: simp_thms)
qed

text \<open>
  The claim fails for the local files: when every file exists and none can be read, the
  loader returns normally with three None entries, the same result as when no file exists.
\<close>

theorem unreadable_files_load_as_none:
  "load_local_excel_files corrupt_files
     = [(''historical'', Absent), (''linguists'', Absent), (''staging'', Absent)]
   \<and> load_local_excel_files missing_files = load_local_excel_files corrupt_files"
  by (simp add: load_local_excel_files_def excel_files_def load_file_def corrupt_files_def missing_files_def)

section \<open>Copies and assignments in place\<close>

lemma to_datetime_not_Str: "to_datetime conv (Str a # s) \<noteq> Str a # s'"
  by (simp add: to_datetime_def split: option.splits)

lemma clean_lass_data_at_keeps: "take (length h) (fst (clean_lass_data_at h df)) = h"
  by (simp add: clean_lass_data_at_def split: option.splits sum.splits)

lemma clean_lep_data_at_keeps: "take (length h) (fst (clean_lep_data_at parse h df)) = h"
  by (simp add: clean_lep_data_at_def split: option.splits sum.splits)

text \<open>
  C3. The cleaning functions of app.py leave every object of the heap as it was and
  return a new one. The date coercion of sosi_app.py does not copy: after it, the table
  that the loader returned holds dates (or the missing-date marker) where it held text,
  whatever pandas reads from the cells.
\<close>

theorem date_coercion_overwrites_loaded_table:
  "staging_dates conv [hearings_table] (Some 0) =
     [\<lparr>nrows = 2,
       columns = [(''Language'', [Str ''Spanish'', Str ''Arabic'']),
                  (''Hearing Date'', to_datetime conv [Str ''2025-03-14'', Str ''to be set''])]\<rparr>]
   \<and> staging_dates conv [hearings_table] (Some 0) \<noteq> [hearings_table]
   \<and> trends_dates conv [hearings_table] (Some 0) = staging_dates conv [hearings_table] (Some 0)
   \<and> take (length h) (fst (clean_lass_data_at h df)) = h
   \<and> take (length h) (fst (clean_lep_data_at parse h df)) = h"
proof -
  have run: "staging_dates conv [hearings_table] (Some 0) =
   [\<lparr>nrows = 2,
     columns = [(''Language'', [Str ''Spanish'', Str ''Arabic'']),
                (''Hearing Date'', to_datetime conv [Str ''2025-03-14'', Str ''to be set''])]\<rparr>]"
    by (simp add: staging_dates_def hearings_table_def getitem_def setitem_def labels_def)
  have changed: "staging_dates conv [hearings_table] (Some 0) \<noteq> [hearings_table]"
    unfolding run by (simp add: hearings_table_def to_datetime_not_Str)
  have same: "trends_dates conv [hearings_table] (Some 0) = staging_dates conv [hearings_table] (Some 0)"
    unfolding run
    by (simp add: trends_dates_def empty_def hearings_table_def getitem_def setitem_def labels_def)
  from run changed same show ?thesis
    by (simp only: clean_lass_data_at_keeps clean_lep_data_at_keeps simp_thms)
qed

end
